theory Spec2Isabelle
  imports Main "HOL-Library.Monad_Syntax" "HOL-Library.Multiset"
begin

section \<open>Strings and character classes\<close>

text \<open>
  The program is JavaScript (\<^verbatim>\<open>functions/agasobanuye.js\<close>). A JavaScript string is a
  sequence of UTF-16 code units; here a string is a \<^typ>\<open>string\<close> whose characters are the
  code units below 256, so \<^const>\<open>length\<close> counts what \<^verbatim>\<open>.length\<close> counts. The character
  classes are those of the regular expressions of the source, restricted to that range.
\<close>

definition code :: "char \<Rightarrow> nat" where
  "code c = of_char c"

definition isDigit :: "char \<Rightarrow> bool" where
  \<comment> \<open>\<^verbatim>\<open>\d\<close>\<close>
  "isDigit c = (48 \<le> code c \<and> code c \<le> 57)"

definition isUpper :: "char \<Rightarrow> bool" where
  \<comment> \<open>\<^verbatim>\<open>[A-Z]\<close>\<close>
  "isUpper c = (65 \<le> code c \<and> code c \<le> 90)"

definition isLower :: "char \<Rightarrow> bool" where
  \<comment> \<open>\<^verbatim>\<open>[a-z]\<close>\<close>
  "isLower c = (97 \<le> code c \<and> code c \<le> 122)"

definition isWordChar :: "char \<Rightarrow> bool" where
  \<comment> \<open>\<^verbatim>\<open>\w\<close>, that is \<^verbatim>\<open>[A-Za-z0-9_]\<close>\<close>
  "isWordChar c = (isDigit c \<or> isUpper c \<or> isLower c \<or> c = CHR ''_'')"

definition isSpace :: "char \<Rightarrow> bool" where
  \<comment> \<open>\<^verbatim>\<open>\s\<close> and the white space of \<^verbatim>\<open>trim\<close>: TAB, LF, VT, FF, CR, SP, NBSP\<close>
  "isSpace c = (code c = 9 \<or> code c = 10 \<or> code c = 11 \<or> code c = 12 \<or> code c = 13
                \<or> code c = 32 \<or> code c = 160)"

definition isLineTerminator :: "char \<Rightarrow> bool" where
  \<comment> \<open>the characters that \<^verbatim>\<open>.\<close> does not match\<close>
  "isLineTerminator c = (code c = 10 \<or> code c = 13)"

definition trim :: "string \<Rightarrow> string" where
  "trim s = rev (dropWhile isSpace (rev (dropWhile isSpace s)))"

definition startsWith :: "string \<Rightarrow> string \<Rightarrow> bool" where
  \<comment> \<open>\<^verbatim>\<open>s.startsWith(p)\<close>\<close>
  "startsWith s p = (take (length p) s = p)"

definition endsWith :: "string \<Rightarrow> string \<Rightarrow> bool" where
  \<comment> \<open>\<^verbatim>\<open>s.endsWith(p)\<close>\<close>
  "endsWith s p = (length p \<le> length s \<and> drop (length s - length p) s = p)"

definition toLowerChar :: "char \<Rightarrow> char" where
  \<comment> \<open>\<^verbatim>\<open>toLowerCase\<close> on one code unit below 256: A-Z and the Latin-1 capitals
      (0xC0-0xDE without the multiplication sign 0xD7) move up by 32\<close>
  "toLowerChar c =
     (if isUpper c \<or> (192 \<le> code c \<and> code c \<le> 222 \<and> code c \<noteq> 215)
      then char_of (code c + 32) else c)"

definition toLowerCase :: "string \<Rightarrow> string" where
  "toLowerCase s = map toLowerChar s"

definition ciLetter :: "char \<Rightarrow> char \<Rightarrow> bool" where
  \<comment> \<open>a lower-case ASCII letter \<open>p\<close> of a pattern with flag \<^verbatim>\<open>i\<close> matches \<open>c\<close>\<close>
  "ciLetter p c = (code c = code p \<or> code c + 32 = code p)"

definition startsWithCI :: "string \<Rightarrow> string \<Rightarrow> bool" where
  \<comment> \<open>the literal \<open>p\<close> (lower-case letters) matches at the front of \<open>s\<close>, ignoring case\<close>
  "startsWithCI s p = (length p \<le> length s \<and> list_all2 ciLetter p (take (length p) s))"

subsection \<open>Numbers read from and written to strings\<close>

text \<open>
  \<^verbatim>\<open>parseInt\<close> on a run of decimal digits, and the decimal text of a non-negative integer
  as a template literal writes it. Both are exact for values below \<open>2^53\<close>; above, JavaScript
  rounds to a double, which is not modelled.
\<close>

definition digitValue :: "char \<Rightarrow> nat" where
  "digitValue c = code c - 48"

definition parseIntDigits :: "string \<Rightarrow> nat" where
  "parseIntDigits ds = foldl (\<lambda>a c. 10 * a + digitValue c) 0 ds"

definition digitChar :: "nat \<Rightarrow> char" where
  "digitChar d = ''0123456789'' ! d"

fun string_of_nat :: "nat \<Rightarrow> string" where
  "string_of_nat n =
     (if n < 10 then [digitChar n] else string_of_nat (n div 10) @ [digitChar (n mod 10)])"

declare string_of_nat.simps [simp del]

section \<open>Duration strings\<close>

text \<open>
  The regular expressions of \<^verbatim>\<open>convertDurationToISO\<close> and \<^verbatim>\<open>formatDurationForDisplay\<close>.
  A group \<^verbatim>\<open>(\d+)\<close> is greedy; in each pattern the character after it is not a digit, so
  only the maximal run of digits can match, and the same holds for \<^verbatim>\<open>\s*\<close>.
\<close>

definition splitDigits :: "string \<Rightarrow> (string \<times> string) option" where
  \<comment> \<open>\<^verbatim>\<open>(\d+)\<close> at the front: the run of digits and what follows it\<close>
  "splitDigits s =
     (let d = takeWhile isDigit s in if d = [] then None else Some (d, dropWhile isDigit s))"

definition expectChar :: "char \<Rightarrow> string \<Rightarrow> string option" where
  "expectChar c s = (case s of [] \<Rightarrow> None | x # r \<Rightarrow> if x = c then Some r else None)"

definition expectCI :: "char \<Rightarrow> string \<Rightarrow> string option" where
  "expectCI p s = (case s of [] \<Rightarrow> None | x # r \<Rightarrow> if ciLetter p x then Some r else None)"

definition matchHMS :: "string \<Rightarrow> (string \<times> string \<times> string) option" where
  \<comment> \<open>\<^verbatim>\<open>/^(\d+):(\d+):(\d+)$/\<close>\<close>
  "matchHMS s = do {
     (h, r1) \<leftarrow> splitDigits s;
     r2 \<leftarrow> expectChar CHR '':'' r1;
     (m, r3) \<leftarrow> splitDigits r2;
     r4 \<leftarrow> expectChar CHR '':'' r3;
     (sec, r5) \<leftarrow> splitDigits r4;
     if r5 = [] then Some (h, m, sec) else None
   }"

definition matchMS :: "string \<Rightarrow> (string \<times> string) option" where
  \<comment> \<open>\<^verbatim>\<open>/^(\d+):(\d+)$/\<close>\<close>
  "matchMS s = do {
     (m, r1) \<leftarrow> splitDigits s;
     r2 \<leftarrow> expectChar CHR '':'' r1;
     (sec, r3) \<leftarrow> splitDigits r2;
     if r3 = [] then Some (m, sec) else None
   }"

fun searchFirst :: "(string \<Rightarrow> 'a option) \<Rightarrow> string \<Rightarrow> 'a option" where
  \<comment> \<open>an unanchored pattern: the match at the leftmost position where there is one\<close>
  "searchFirst f [] = f []"
| "searchFirst f (c # cs) =
     (case f (c # cs) of Some r \<Rightarrow> Some r | None \<Rightarrow> searchFirst f cs)"

definition minutesAt :: "string \<Rightarrow> string option" where
  \<comment> \<open>\<^verbatim>\<open>/(\d+)\s*(?:min|minutes?)/i\<close> at the front; the alternative \<^verbatim>\<open>min\<close> is tried first\<close>
  "minutesAt s = do {
     (d, r) \<leftarrow> splitDigits s;
     if startsWithCI (dropWhile isSpace r) ''min'' then Some d else None
   }"

definition hoursAt :: "string \<Rightarrow> string option" where
  \<comment> \<open>\<^verbatim>\<open>/(\d+)\s*(?:hr|hours?)/i\<close> at the front\<close>
  "hoursAt s = do {
     (d, r) \<leftarrow> splitDigits s;
     if startsWithCI (dropWhile isSpace r) ''hr'' \<or> startsWithCI (dropWhile isSpace r) ''hour''
     then Some d else None
   }"

definition hmAt :: "string \<Rightarrow> (string \<times> string) option" where
  \<comment> \<open>\<^verbatim>\<open>/(\d+)h\s*(\d+)m/i\<close> at the front\<close>
  "hmAt s = do {
     (h, r1) \<leftarrow> splitDigits s;
     r2 \<leftarrow> expectCI CHR ''h'' r1;
     (m, r3) \<leftarrow> splitDigits (dropWhile isSpace r2);
     r4 \<leftarrow> expectCI CHR ''m'' r3;
     Some (h, m)
   }"

definition convertDurationToISO :: "string \<Rightarrow> string" where
  "convertDurationToISO duration =
     (if duration = [] \<or> duration = ''Not specified'' then ''PT0M''
      else case matchHMS duration of
        Some (hours, minutes, seconds) \<Rightarrow>
          ''PT'' @ hours @ ''H'' @ minutes @ ''M'' @ seconds @ ''S''
      | None \<Rightarrow>
      (case matchMS duration of
        Some (minutes, seconds) \<Rightarrow> ''PT'' @ minutes @ ''M'' @ seconds @ ''S''
      | None \<Rightarrow>
      (case searchFirst minutesAt duration of
        Some d \<Rightarrow> ''PT'' @ string_of_nat (parseIntDigits d) @ ''M''
      | None \<Rightarrow>
      (case searchFirst hoursAt duration of
        Some d \<Rightarrow> ''PT'' @ string_of_nat (parseIntDigits d) @ ''H''
      | None \<Rightarrow>
      (case searchFirst hmAt duration of
        Some (hours, minutes) \<Rightarrow> ''PT'' @ hours @ ''H'' @ minutes @ ''M''
      | None \<Rightarrow> ''PT0M'')))))"

definition formatDurationForDisplay :: "string \<Rightarrow> string" where
  "formatDurationForDisplay duration =
     (if duration = [] \<or> duration = ''Not specified'' then ''''
      else case matchHMS duration of
        Some (hours, minutes, seconds) \<Rightarrow> hours @ ''h '' @ minutes @ ''m''
      | None \<Rightarrow>
      (case matchMS duration of
        Some (minutes, seconds) \<Rightarrow> minutes @ ''m''
      | None \<Rightarrow>
      (case searchFirst minutesAt duration of
        Some d \<Rightarrow> string_of_nat (parseIntDigits d) @ ''m''
      | None \<Rightarrow>
      (case searchFirst hoursAt duration of
        Some d \<Rightarrow> string_of_nat (parseIntDigits d) @ ''h''
      | None \<Rightarrow>
      (case searchFirst hmAt duration of
        Some (hours, minutes) \<Rightarrow> hours @ ''h '' @ minutes @ ''m''
      | None \<Rightarrow> duration)))))"

definition matchesNoPattern :: "string \<Rightarrow> bool" where
  \<comment> \<open>none of the five patterns of the two formatters matches\<close>
  "matchesNoPattern d =
     (matchHMS d = None \<and> matchMS d = None \<and> searchFirst minutesAt d = None
      \<and> searchFirst hoursAt d = None \<and> searchFirst hmAt d = None)"

text \<open>
  The hour and minute components of the two output formats, read back from the text:
  in an ISO duration the digits before \<^verbatim>\<open>H\<close> and before \<^verbatim>\<open>M\<close> after the prefix \<^verbatim>\<open>PT\<close>, in the
  display form the digits before \<^verbatim>\<open>h\<close> and before \<^verbatim>\<open>m\<close>.
\<close>

definition unitField :: "char \<Rightarrow> string \<Rightarrow> string option \<times> string" where
  \<comment> \<open>an optional field: digits followed by the unit letter\<close>
  "unitField u s =
     (case splitDigits s of
        None \<Rightarrow> (None, s)
      | Some (d, r) \<Rightarrow>
          (case r of [] \<Rightarrow> (None, s)
           | x # r' \<Rightarrow> if x = u then (Some d, r') else (None, s)))"

definition isoHourMinute :: "string \<Rightarrow> (string option \<times> string option) option" where
  "isoHourMinute s =
     (if startsWith s ''PT''
      then (let (h, r) = unitField CHR ''H'' (drop 2 s); (m, r') = unitField CHR ''M'' r
            in Some (h, m))
      else None)"

definition displayHourMinute :: "string \<Rightarrow> (string option \<times> string option) option" where
  "displayHourMinute s =
     (let (h, r) = unitField CHR ''h'' s;
          (m, r') = unitField CHR ''m'' (dropWhile (\<lambda>c. c = CHR '' '') r)
      in Some (h, m))"

section \<open>Relative dates\<close>

text \<open>
  \<^verbatim>\<open>formatShortDate(date)\<close> reads the clock; the instant \<open>now\<close> is a parameter, in
  milliseconds. A \<^verbatim>\<open>Date\<close> is its time value, \<^const>\<open>None\<close> for an invalid date, where every
  comparison with \<^verbatim>\<open>NaN\<close> fails and the last branch prints \<^verbatim>\<open>NaN\<close>.
\<close>

definition msPerDay :: int where
  "msPerDay = 1000 * 60 * 60 * 24"

definition formatShortDate :: "int \<Rightarrow> int option \<Rightarrow> string" where
  "formatShortDate now date =
     (case date of
        None \<Rightarrow> ''NaNy ago''
      | Some t \<Rightarrow>
          (let diffTime = \<bar>now - t\<bar>;
               diffDays = nat (diffTime div msPerDay)
           in if diffDays = 0 then ''Today''
              else if diffDays = 1 then ''Yesterday''
              else if diffDays < 7 then string_of_nat diffDays @ ''d ago''
              else if diffDays < 30 then string_of_nat (diffDays div 7) @ ''w ago''
              else if diffDays < 365 then string_of_nat (diffDays div 30) @ ''mo ago''
              else string_of_nat (diffDays div 365) @ ''y ago''))"

section \<open>Slugs\<close>

definition isSlugSeparator :: "char \<Rightarrow> bool" where
  \<comment> \<open>\<^verbatim>\<open>[\s_-]\<close>\<close>
  "isSlugSeparator c = (isSpace c \<or> c = CHR ''_'' \<or> c = CHR ''-'')"

fun collapseSeparators :: "bool \<Rightarrow> string \<Rightarrow> string" where
  \<comment> \<open>\<^verbatim>\<open>.replace(/[\s_-]+/g, '-')\<close>: every maximal run of separators becomes one hyphen;
      the flag says that the previous character belonged to a run\<close>
  "collapseSeparators inRun [] = []"
| "collapseSeparators inRun (c # cs) =
     (if isSlugSeparator c
      then (if inRun then collapseSeparators True cs
            else CHR ''-'' # collapseSeparators True cs)
      else c # collapseSeparators False cs)"

definition stripHyphens :: "string \<Rightarrow> string" where
  \<comment> \<open>\<^verbatim>\<open>.replace(/^-+|-+$/g, '')\<close>\<close>
  "stripHyphens s =
     rev (dropWhile (\<lambda>c. c = CHR ''-'') (rev (dropWhile (\<lambda>c. c = CHR ''-'') s)))"

definition generateSlug :: "string \<Rightarrow> string" where
  "generateSlug text =
     stripHyphens
       (collapseSeparators False
          (filter (\<lambda>c. isWordChar c \<or> isSpace c \<or> c = CHR ''-'')
             (trim (toLowerCase text))))"



section \<open>Values and objects\<close>

text \<open>
  The values a front-matter field or a field of a video object can hold. A number is held
  as an integer: \<^verbatim>\<open>parseInt(value) || 0\<close> never stores \<^verbatim>\<open>NaN\<close>, and the integer is the
  exact one below \<open>2^53\<close>. An object is the list of its own properties in insertion order
  (JavaScript lists keys that look like array indices first; no statement below depends on
  the place of such a key).
\<close>

datatype jsval =
    JStr string
  | JNum int
  | JBool bool
  | JArr "jsval list"
  | JNull
  | JObj "(string \<times> jsval) list"

type_synonym jsobject = "(string \<times> jsval) list"

fun truthy :: "jsval \<Rightarrow> bool" where
  "truthy (JStr s) = (s \<noteq> [])"
| "truthy (JNum n) = (n \<noteq> 0)"
| "truthy (JBool b) = b"
| "truthy (JArr xs) = True"
| "truthy JNull = False"
| "truthy (JObj ps) = True"

fun isString :: "jsval \<Rightarrow> bool" where
  "isString (JStr s) = True"
| "isString v = False"

definition getProp :: "jsobject \<Rightarrow> string \<Rightarrow> jsval option" where
  \<comment> \<open>\<^verbatim>\<open>obj.k\<close>; \<^const>\<open>None\<close> is \<^verbatim>\<open>undefined\<close>\<close>
  "getProp obj k = map_of obj k"

fun setProp :: "string \<Rightarrow> jsval \<Rightarrow> jsobject \<Rightarrow> jsobject" where
  \<comment> \<open>define or overwrite an own property; a new key goes last\<close>
  "setProp k v [] = [(k, v)]"
| "setProp k v (p # ps) = (if fst p = k then (k, v) # ps else p # setProp k v ps)"

definition orElse :: "jsval option \<Rightarrow> jsval \<Rightarrow> jsval" where
  \<comment> \<open>\<^verbatim>\<open>a || b\<close> where \<open>a\<close> is a property read\<close>
  "orElse a b = (case a of None \<Rightarrow> b | Some v \<Rightarrow> if truthy v then v else b)"

datatype error = TypeError

fun joinWith :: "string \<Rightarrow> string list \<Rightarrow> string" where
  "joinWith sep [] = []"
| "joinWith sep [x] = x"
| "joinWith sep (x # y # ys) = x @ sep @ joinWith sep (y # ys)"

text \<open>
  The conversion of a value to a string, as a property key and inside \<^verbatim>\<open>new Date(v)\<close> need
  it. An array is joined with commas, \<^verbatim>\<open>null\<close> elements giving the empty string. A plain
  object gives \<^verbatim>\<open>[object Object]\<close> through the inherited \<^verbatim>\<open>toString\<close>; when it has an own
  property \<^verbatim>\<open>toString\<close> (a value out of \<^verbatim>\<open>JSON.parse\<close>, so not callable), neither that nor
  \<^verbatim>\<open>valueOf\<close> yields a primitive and the conversion throws a \<^verbatim>\<open>TypeError\<close>: \<^const>\<open>None\<close>.
\<close>

fun toStringJS :: "jsval \<Rightarrow> string option" where
  "toStringJS (JStr s) = Some s"
| "toStringJS (JNum n) =
     Some (if n < 0 then CHR ''-'' # string_of_nat (nat (- n)) else string_of_nat (nat n))"
| "toStringJS (JBool b) = Some (if b then ''true'' else ''false'')"
| "toStringJS (JArr xs) =
     map_option (joinWith '','')
       (those (map (\<lambda>x. if x = JNull then Some [] else toStringJS x) xs))"
| "toStringJS JNull = Some ''null''"
| "toStringJS (JObj ps) =
     (if ''toString'' \<in> set (map fst ps) then None else Some ''[object Object]'')"

fun toPrimitive :: "jsval \<Rightarrow> jsval option" where
  \<comment> \<open>an array or object becomes its string, any other value is primitive already\<close>
  "toPrimitive (JArr xs) = map_option JStr (toStringJS (JArr xs))"
| "toPrimitive (JObj ps) = map_option JStr (toStringJS (JObj ps))"
| "toPrimitive v = Some v"

text \<open>
  What the program takes from its host: \<^verbatim>\<open>JSON.parse\<close> (\<^const>\<open>None\<close> when it throws; the
  program applies it to text in square brackets only, where the result is an array), the
  clock, the time value of \<^verbatim>\<open>new Date(p)\<close> for a primitive value \<open>p\<close> (\<^const>\<open>None\<close> for an
  invalid date) and \<^verbatim>\<open>toLocaleDateString('en-US', ...)\<close> of a valid date.
\<close>

record host =
  jsonParse :: "string \<Rightarrow> jsval option"
  nowISO :: string
  nowMs :: int
  dateValue :: "jsval \<Rightarrow> int option"
  toLocaleDateString :: "int \<Rightarrow> string"

definition newDate :: "host \<Rightarrow> jsval \<Rightarrow> error + int option" where
  \<comment> \<open>the time value of \<^verbatim>\<open>new Date(v)\<close>: \<open>v\<close> is converted to a primitive first, which
      can throw\<close>
  "newDate h v =
     (case toPrimitive v of None \<Rightarrow> Inl TypeError | Some p \<Rightarrow> Inr (dateValue h p))"

section \<open>The front-matter parser\<close>

fun lazyUntil :: "string \<Rightarrow> string \<Rightarrow> string option" where
  \<comment> \<open>\<^verbatim>\<open>([\s\S]*?)\<close> followed by the literal \<open>p\<close>: the text before the first occurrence of \<open>p\<close>\<close>
  "lazyUntil p [] = (if p = [] then Some [] else None)"
| "lazyUntil p (c # cs) =
     (if startsWith (c # cs) p then Some [] else map_option ((#) c) (lazyUntil p cs))"

definition frontmatterMatch :: "string \<Rightarrow> string option" where
  \<comment> \<open>group 1 of \<^verbatim>\<open>content.match(/^---\n([\s\S]*?)\n---/)\<close>\<close>
  "frontmatterMatch content =
     (if startsWith content ''---\<newline>'' then lazyUntil ''\<newline>---'' (drop 4 content) else None)"

fun splitOn :: "char \<Rightarrow> string \<Rightarrow> string list" where
  \<comment> \<open>\<^verbatim>\<open>s.split(sep)\<close> for a separator of one character\<close>
  "splitOn sep [] = [[]]"
| "splitOn sep (c # cs) =
     (if c = sep then [] # splitOn sep cs
      else (case splitOn sep cs of [] \<Rightarrow> [[c]] | l # ls \<Rightarrow> (c # l) # ls))"

definition matchKeyValue :: "string \<Rightarrow> (string \<times> string) option" where
  \<comment> \<open>\<^verbatim>\<open>line.match(/^(\w+):\s*(.*)$/)\<close>: \<^verbatim>\<open>.\<close> matches no line terminator and \<^verbatim>\<open>$\<close> only the
      end of the line, so a carriage return inside the value makes the match fail\<close>
  "matchKeyValue line =
     (let key = takeWhile isWordChar line in
      if key = [] then None
      else case expectChar CHR '':'' (dropWhile isWordChar line) of
        None \<Rightarrow> None
      | Some r \<Rightarrow>
          (let v = dropWhile isSpace r in
           if list_ex isLineTerminator v then None else Some (key, v)))"

definition isQuote :: "char \<Rightarrow> bool" where
  "isQuote c = (c = CHR 0x22 \<or> c = CHR 0x27)"

definition stripQuotes :: "string \<Rightarrow> string" where
  \<comment> \<open>\<^verbatim>\<open>.replace(/^["'](.*)["']$/, '$1')\<close>\<close>
  "stripQuotes s =
     (if 2 \<le> length s \<and> isQuote (hd s) \<and> isQuote (last s)
         \<and> \<not> list_ex isLineTerminator (butlast (tl s))
      then butlast (tl s) else s)"

fun indexOf :: "'a list \<Rightarrow> 'a \<Rightarrow> int" where
  \<comment> \<open>\<^verbatim>\<open>lines.indexOf(line)\<close>: the first position holding an equal value, or -1\<close>
  "indexOf [] x = - 1"
| "indexOf (y # ys) x =
     (if y = x then 0 else (let i = indexOf ys x in if i < 0 then - 1 else i + 1))"

fun collectListItems :: "string list \<Rightarrow> string list" where
  \<comment> \<open>the loop over the lines from \<^verbatim>\<open>nextLineIndex\<close> that start with a hyphen\<close>
  "collectListItems [] = []"
| "collectListItems (l # ls) =
     (let arrayLine = trim l in
      if startsWith arrayLine ''-''
      then stripQuotes (trim (drop 1 arrayLine)) # collectListItems ls
      else [])"

fun collectBlockLines :: "string list \<Rightarrow> string" where
  \<comment> \<open>the loop over the indented lines after a pipe\<close>
  "collectBlockLines [] = []"
| "collectBlockLines (l # ls) =
     (if startsWith l ''  '' \<or> startsWith l [CHR 0x09]
      then trim l @ '' '' @ collectBlockLines ls
      else [])"

definition isHexDigit :: "char \<Rightarrow> bool" where
  "isHexDigit c = (isDigit c \<or> (65 \<le> code c \<and> code c \<le> 70) \<or> (97 \<le> code c \<and> code c \<le> 102))"

definition hexDigitValue :: "char \<Rightarrow> nat" where
  "hexDigitValue c =
     (if isDigit c then code c - 48 else if code c \<le> 70 then code c - 55 else code c - 87)"

definition parseInt :: "string \<Rightarrow> int option" where
  \<comment> \<open>\<^verbatim>\<open>parseInt(s)\<close> without a radix; \<^const>\<open>None\<close> is \<^verbatim>\<open>NaN\<close>\<close>
  "parseInt s =
     (let t = dropWhile isSpace s;
          neg = startsWith t ''-'';
          u = (if startsWith t ''-'' \<or> startsWith t ''+'' then drop 1 t else t);
          sgn = (if neg then - 1 else 1)
      in if startsWith u ''0x'' \<or> startsWith u ''0X''
         then (let ds = takeWhile isHexDigit (drop 2 u) in
               if ds = [] then None
               else Some (sgn * int (foldl (\<lambda>a c. 16 * a + hexDigitValue c) 0 ds)))
         else (let ds = takeWhile isDigit u in
               if ds = [] then None else Some (sgn * int (parseIntDigits ds))))"

definition numericKeys :: "string list" where
  "numericKeys =
     [''releaseYear'', ''views'', ''likes'', ''imdbRating'', ''imdbVotes'',
      ''rottenTomatoesScore'', ''metacriticScore'', ''ageRestriction'', ''seasonNumber'',
      ''totalSeasons'', ''episodeNumber'', ''episodeCount'']"

definition fieldValue :: "host \<Rightarrow> string list \<Rightarrow> string \<Rightarrow> string \<Rightarrow> string \<Rightarrow> jsval" where
  \<comment> \<open>the value stored for a line that matched, with \<open>raw\<close> the second group of the match\<close>
  "fieldValue h lines line key raw =
     (let value = trim (stripQuotes raw) in
      if value = [] \<and> line \<in> set lines then
        (let nextLineIndex = indexOf lines line + 1 in
         case drop (nat nextLineIndex) lines of
           [] \<Rightarrow> JStr []
         | l # ls \<Rightarrow>
             if startsWith (trim l) ''-''
             then JArr (map JStr (collectListItems (l # ls)))
             else JStr [])
      else if startsWith value ''['' \<and> endsWith value '']'' then
        (case jsonParse h value of
           Some v \<Rightarrow> v
         | None \<Rightarrow>
             JArr (map JStr
               (filter (\<lambda>v. v \<noteq> [])
                  (map (\<lambda>v. stripQuotes (trim v))
                     (splitOn CHR '','' (take (length value - 2) (drop 1 value)))))))
      else if key \<in> set numericKeys then
        JNum (case parseInt value of None \<Rightarrow> 0 | Some n \<Rightarrow> n)
      else if value = ''true'' \<or> value = ''false'' then JBool (value = ''true'')
      else if value = ''|'' then
        JStr (trim (collectBlockLines (drop (nat (indexOf lines line + 1)) lines)))
      else JStr value)"

definition assignField :: "string \<Rightarrow> jsval \<Rightarrow> jsobject \<Rightarrow> jsobject" where
  \<comment> \<open>\<^verbatim>\<open>data[key] = value\<close> on a plain object: with the key \<^verbatim>\<open>__proto__\<close> the inherited setter
      runs (it replaces the prototype by an array value and ignores any other) and no own
      property appears; none of the properties read later exists on an array\<close>
  "assignField key v data = (if key = ''__proto__'' then data else setProp key v data)"

definition parseLine :: "host \<Rightarrow> string list \<Rightarrow> jsobject \<Rightarrow> string \<Rightarrow> jsobject" where
  \<comment> \<open>one turn of \<^verbatim>\<open>for (const line of lines)\<close>\<close>
  "parseLine h lines data line =
     (if trim line = [] then data
      else case matchKeyValue line of
        None \<Rightarrow> data
      | Some (key, raw) \<Rightarrow> assignField key (fieldValue h lines line key raw) data)"

text \<open>
  On a string, no operation inside the \<^verbatim>\<open>try\<close> of \<^verbatim>\<open>parseYAMLFrontmatter\<close> throws except
  \<^verbatim>\<open>JSON.parse\<close>, whose exception the inner \<^verbatim>\<open>catch\<close> turns into the comma-split list. The
  function is therefore total on strings and the outer \<^verbatim>\<open>catch\<close>, which logs and goes on to
  \<^verbatim>\<open>return data\<close>, is no branch of the model.
\<close>

definition parseYAMLFrontmatter :: "host \<Rightarrow> string \<Rightarrow> jsobject" where
  "parseYAMLFrontmatter h content =
     (case frontmatterMatch content of
        None \<Rightarrow> []
      | Some frontmatter \<Rightarrow>
          (let lines = splitOn CHR 0x0A frontmatter in foldl (parseLine h lines) [] lines))"

section \<open>From a file to a video object\<close>

record rawFile =
  name :: string
  download_url :: string
  html_url :: string

text \<open>
  \<^verbatim>\<open>fetch(file.download_url)\<close> is the one effect of \<^verbatim>\<open>parseTranslatedVideo\<close>; its outcome is a
  parameter: the request fails with an exception, the response is not \<^verbatim>\<open>ok\<close>, or the text
  of the file arrives.
\<close>

datatype fetchResult = FetchError | FetchNotOk | FetchOk string

definition bracketGroup :: "string \<Rightarrow> (string \<times> string) option" where
  \<comment> \<open>\<^verbatim>\<open>\[([^\]]+)\]\<close> at the front: the group and what follows the closing bracket\<close>
  "bracketGroup s = do {
     r \<leftarrow> expectChar CHR ''['' s;
     r' \<leftarrow> expectChar CHR '']'' (dropWhile (\<lambda>c. c \<noteq> CHR '']'') r);
     if takeWhile (\<lambda>c. c \<noteq> CHR '']'') r = [] then None
     else Some (takeWhile (\<lambda>c. c \<noteq> CHR '']'') r, r')
   }"

definition filenameMatch :: "string \<Rightarrow> (string \<times> string \<times> string) option" where
  \<comment> \<open>\<^verbatim>\<open>file.name.match(/^\[([^\]]+)\]\[([^\]]+)\]\[([^\]]+)\]\.md$/)\<close>\<close>
  "filenameMatch s = do {
     (title, r1) \<leftarrow> bracketGroup s;
     (contentType, r2) \<leftarrow> bracketGroup r1;
     (translator, r3) \<leftarrow> bracketGroup r2;
     if r3 = ''.md'' then Some (title, contentType, translator) else None
   }"

text \<open>
  A call of a string method on a value that is not a string throws a \<^verbatim>\<open>TypeError\<close>, which
  the \<^verbatim>\<open>catch\<close> of \<^verbatim>\<open>parseTranslatedVideo\<close> turns into \<^verbatim>\<open>null\<close>. The three functions below
  are the string functions applied to an arbitrary value, \<^const>\<open>None\<close> when they throw.
\<close>

definition generateSlugOf :: "jsval \<Rightarrow> string option" where
  "generateSlugOf v = (case v of JStr s \<Rightarrow> Some (generateSlug s) | _ \<Rightarrow> None)"

definition convertDurationToISOOf :: "jsval \<Rightarrow> string option" where
  "convertDurationToISOOf v =
     (case v of JStr s \<Rightarrow> Some (convertDurationToISO s)
      | _ \<Rightarrow> if truthy v then None else Some ''PT0M'')"

definition formatDurationForDisplayOf :: "jsval \<Rightarrow> string option" where
  "formatDurationForDisplayOf v =
     (case v of JStr s \<Rightarrow> Some (formatDurationForDisplay s)
      | _ \<Rightarrow> if truthy v then None else Some [])"

definition formatDate :: "host \<Rightarrow> int option \<Rightarrow> string" where
  "formatDate h date =
     (case date of None \<Rightarrow> ''Invalid Date'' | Some t \<Rightarrow> toLocaleDateString h t)"

definition spread :: "jsobject \<Rightarrow> jsobject \<Rightarrow> jsobject" where
  \<comment> \<open>\<^verbatim>\<open>{ ...fields, ...src }\<close>: every own property of \<open>src\<close> is defined on the new object\<close>
  "spread obj src = foldl (\<lambda>acc p. setProp (fst p) (snd p) acc) obj src"

definition videoLiteral ::
  "host \<Rightarrow> rawFile \<Rightarrow> string \<Rightarrow> string \<Rightarrow> string \<Rightarrow> string \<Rightarrow> jsobject \<Rightarrow> jsobject" where
  \<comment> \<open>the object literal of \<^verbatim>\<open>parseTranslatedVideo\<close>, \<open>translatorSlug\<close> already computed\<close>
  "videoLiteral h file title contentType translator translatorSlug frontmatterData =
     spread
       [(''filename'', JStr (name file)),
        (''title'', orElse (getProp frontmatterData ''title'')
           (JStr (trim (map (\<lambda>c. if c = CHR ''-'' then CHR '' '' else c) title)))),
        (''slug'', orElse (getProp frontmatterData ''slug'') (JStr (generateSlug title))),
        (''contentType'', orElse (getProp frontmatterData ''contentType'')
           (JStr (trim contentType))),
        (''translator'', orElse (getProp frontmatterData ''translator'')
           (JStr (trim translator))),
        (''translatorSlug'', JStr translatorSlug),
        (''downloadUrl'', JStr (download_url file)),
        (''htmlUrl'', JStr (html_url file)),
        (''duration'', orElse (getProp frontmatterData ''runtime'')
           (orElse (getProp frontmatterData ''duration'') (JStr []))),
        (''quality'', orElse (getProp frontmatterData ''quality'')
           (orElse (getProp frontmatterData ''videoQuality'') (JStr ''HD''))),
        (''uploadDate'', orElse (getProp frontmatterData ''dateAdded'')
           (orElse (getProp frontmatterData ''uploadDate'') (JStr (nowISO h)))),
        (''poster'', orElse (getProp frontmatterData ''posterUrl'')
           (orElse (getProp frontmatterData ''thumbnailUrl'') (JStr []))),
        (''videoUrl'', orElse (getProp frontmatterData ''videoUrl'') (JStr [])),
        (''description'', orElse (getProp frontmatterData ''description'')
           (orElse (getProp frontmatterData ''shortDescription'') (JStr []))),
        (''releaseYear'', orElse (getProp frontmatterData ''releaseYear'') (JStr [])),
        (''genre'', orElse (getProp frontmatterData ''genre'') (JArr [])),
        (''views'', orElse (getProp frontmatterData ''views'') (JNum 0)),
        (''likes'', orElse (getProp frontmatterData ''likes'') (JNum 0))]
       frontmatterData"

definition ensureIsoDuration :: "jsobject \<Rightarrow> jsobject option" where
  \<comment> \<open>\<^verbatim>\<open>if (videoData.duration && !videoData.isoDuration) ...\<close>\<close>
  "ensureIsoDuration videoData =
     (if truthy (orElse (getProp videoData ''duration'') JNull)
         \<and> \<not> truthy (orElse (getProp videoData ''isoDuration'') JNull)
      then map_option (\<lambda>iso. setProp ''isoDuration'' (JStr iso) videoData)
             (convertDurationToISOOf (orElse (getProp videoData ''duration'') JNull))
      else Some videoData)"

definition formatUploadDate :: "host \<Rightarrow> jsobject \<Rightarrow> jsobject option" where
  \<comment> \<open>\<^verbatim>\<open>if (videoData.uploadDate) ...\<close>; \<^const>\<open>None\<close> when \<^verbatim>\<open>new Date(videoData.uploadDate)\<close>
      throws\<close>
  "formatUploadDate h videoData =
     (if truthy (orElse (getProp videoData ''uploadDate'') JNull)
      then (case newDate h (orElse (getProp videoData ''uploadDate'') JNull) of
              Inl e \<Rightarrow> None
            | Inr date \<Rightarrow>
                Some (setProp ''shortDate'' (JStr (formatShortDate (nowMs h) date))
                        (setProp ''formattedDate'' (JStr (formatDate h date)) videoData)))
      else Some videoData)"

definition formatDuration :: "jsobject \<Rightarrow> jsobject option" where
  \<comment> \<open>\<^verbatim>\<open>if (videoData.duration && videoData.duration !== 'Not specified') ...\<close>\<close>
  "formatDuration videoData =
     (if truthy (orElse (getProp videoData ''duration'') JNull)
         \<and> getProp videoData ''duration'' \<noteq> Some (JStr ''Not specified'')
      then map_option (\<lambda>d. setProp ''formattedDuration'' (JStr d) videoData)
             (formatDurationForDisplayOf (orElse (getProp videoData ''duration'') JNull))
      else Some videoData)"

definition parseTranslatedVideo :: "host \<Rightarrow> fetchResult \<Rightarrow> rawFile \<Rightarrow> jsobject option" where
  \<comment> \<open>\<^const>\<open>None\<close> is \<^verbatim>\<open>null\<close>, returned for a name that does not match, for a response that is
      not \<^verbatim>\<open>ok\<close>, and by the \<^verbatim>\<open>catch\<close> for every exception\<close>
  "parseTranslatedVideo h fetched file =
     (case filenameMatch (name file) of
        None \<Rightarrow> None
      | Some (title, contentType, translator) \<Rightarrow>
          (case fetched of
             FetchError \<Rightarrow> None
           | FetchNotOk \<Rightarrow> None
           | FetchOk content \<Rightarrow>
               (let frontmatterData = parseYAMLFrontmatter h content in
                do {
                  translatorSlug \<leftarrow>
                    generateSlugOf (orElse (getProp frontmatterData ''translator'') (JStr translator));
                  videoData1 \<leftarrow>
                    ensureIsoDuration
                      (videoLiteral h file title contentType translator translatorSlug
                         frontmatterData);
                  videoData2 \<leftarrow> formatUploadDate h videoData1;
                  formatDuration videoData2
                })))"

section \<open>Latest videos by type\<close>

definition objectPrototypeKeys :: "string list" where
  \<comment> \<open>the properties every plain object inherits; each holds a function or an object,
      none of them an array\<close>
  "objectPrototypeKeys =
     [''constructor'', ''__defineGetter__'', ''__defineSetter__'', ''hasOwnProperty'',
      ''__lookupGetter__'', ''__lookupSetter__'', ''isPrototypeOf'', ''propertyIsEnumerable'',
      ''toString'', ''valueOf'', ''__proto__'', ''toLocaleString'']"

fun groupVideos ::
  "jsobject list \<Rightarrow> jsobject list \<times> jsobject list \<Rightarrow> error + (jsobject list \<times> jsobject list)" where
  \<comment> \<open>\<^verbatim>\<open>videos.forEach(...)\<close> on \<^verbatim>\<open>grouped = { 'MOVIE': [], 'TV-SERIES': [] }\<close>. The conversion
      of a truthy content type to a property key can throw; for an inherited key
      \<^verbatim>\<open>grouped[key]\<close> is truthy and has no \<^verbatim>\<open>push\<close>, so the call throws\<close>
  "groupVideos [] grouped = Inr grouped"
| "groupVideos (video # videos) (movies, series) =
     (if \<not> truthy (orElse (getProp video ''contentType'') JNull)
      then groupVideos videos (movies, series)
      else (case toStringJS (orElse (getProp video ''contentType'') JNull) of
              None \<Rightarrow> Inl TypeError
            | Some key \<Rightarrow>
                if key = ''MOVIE'' then groupVideos videos (movies @ [video], series)
                else if key = ''TV-SERIES'' then groupVideos videos (movies, series @ [video])
                else if key \<in> set objectPrototypeKeys then Inl TypeError
                else groupVideos videos (movies, series)))"

definition uploadTime :: "host \<Rightarrow> jsobject \<Rightarrow> error + int option" where
  \<comment> \<open>the time value of \<^verbatim>\<open>new Date(v.uploadDate || 0)\<close>\<close>
  "uploadTime h v =
     (if truthy (orElse (getProp v ''uploadDate'') JNull)
      then newDate h (orElse (getProp v ''uploadDate'') JNull)
      else Inr (Some 0))"

definition compareByDate :: "host \<Rightarrow> jsobject \<Rightarrow> jsobject \<Rightarrow> error + int option" where
  \<comment> \<open>the comparator \<^verbatim>\<open>(a, b) => new Date(b.uploadDate || 0) - new Date(a.uploadDate || 0)\<close>;
      \<^const>\<open>None\<close> is \<^verbatim>\<open>NaN\<close>\<close>
  "compareByDate h a b =
     (case uploadTime h b of
        Inl e \<Rightarrow> Inl e
      | Inr tb \<Rightarrow>
          (case uploadTime h a of
             Inl e \<Rightarrow> Inl e
           | Inr ta \<Rightarrow>
               Inr (case (tb, ta) of (Some x, Some y) \<Rightarrow> Some (x - y) | _ \<Rightarrow> None)))"

definition notAfter :: "int option \<Rightarrow> bool" where
  \<comment> \<open>the result of the comparator does not ask for \<open>a\<close> after \<open>b\<close>; \<^verbatim>\<open>sort\<close> reads \<^verbatim>\<open>NaN\<close>
      as 0\<close>
  "notAfter c = (case c of None \<Rightarrow> True | Some d \<Rightarrow> d \<le> 0)"

fun insertByDate :: "host \<Rightarrow> jsobject \<Rightarrow> jsobject list \<Rightarrow> error + jsobject list" where
  "insertByDate h x [] = Inr [x]"
| "insertByDate h x (y # ys) =
     (case compareByDate h x y of
        Inl e \<Rightarrow> Inl e
      | Inr c \<Rightarrow>
          if notAfter c then Inr (x # y # ys)
          else (case insertByDate h x ys of Inl e \<Rightarrow> Inl e | Inr zs \<Rightarrow> Inr (y # zs)))"

fun sortByDate :: "host \<Rightarrow> jsobject list \<Rightarrow> error + jsobject list" where
  \<comment> \<open>\<^verbatim>\<open>Array.prototype.sort\<close> with that comparator: a stable sort, here by insertion from
      the right. An exception of the comparator ends the sort; an array of fewer than two
      elements is never compared. The language fixes the order only when the comparator
      is consistent, that is when no date is invalid.\<close>
  "sortByDate h [] = Inr []"
| "sortByDate h (x # xs) =
     (case sortByDate h xs of Inl e \<Rightarrow> Inl e | Inr ys \<Rightarrow> insertByDate h x ys)"

definition jsSlice :: "int \<Rightarrow> int \<Rightarrow> 'a list \<Rightarrow> 'a list" where
  \<comment> \<open>\<^verbatim>\<open>xs.slice(start, end)\<close>: a negative index counts from the end\<close>
  "jsSlice start end xs =
     (let len = int (length xs);
          k = (if start < 0 then max (len + start) 0 else min start len);
          fin = (if end < 0 then max (len + end) 0 else min end len)
      in take (nat (fin - k)) (drop (nat k) xs))"

definition getLatestVideosByType ::
  "host \<Rightarrow> jsobject list \<Rightarrow> int \<Rightarrow> error + (string \<times> jsobject list) list" where
  "getLatestVideosByType h videos limit =
     (case groupVideos videos ([], []) of
        Inl e \<Rightarrow> Inl e
      | Inr (movies, series) \<Rightarrow>
          (case sortByDate h movies of
             Inl e \<Rightarrow> Inl e
           | Inr sortedMovies \<Rightarrow>
               (case sortByDate h series of
                  Inl e \<Rightarrow> Inl e
                | Inr sortedSeries \<Rightarrow>
                    Inr [(''MOVIE'', jsSlice 0 limit sortedMovies),
                         (''TV-SERIES'', jsSlice 0 limit sortedSeries)])))"

section \<open>Sitemaps\<close>

text \<open>
  A sitemap is modelled by the list of its \<^verbatim>\<open><loc>\<close> elements, in document order; the other
  children of an entry are the date of the day and constants.
\<close>

record videoSlug =
  category :: string
  slug :: string

datatype response = UrlSet "string list" | SitemapIndex "string list" | NotFound string

definition MAX_URLS_PER_SITEMAP :: nat where
  "MAX_URLS_PER_SITEMAP = 1000"

definition videoUrl :: "string \<Rightarrow> videoSlug \<Rightarrow> string" where
  "videoUrl baseUrl v = baseUrl @ ''/'' @ category v @ ''/'' @ slug v"

definition categoriesOf :: "videoSlug list \<Rightarrow> string list" where
  \<comment> \<open>\<^verbatim>\<open>[...new Set(allVideoSlugs.map(v => v.category).filter(Boolean))]\<close>: first occurrences\<close>
  "categoriesOf allVideoSlugs =
     rev (remdups (rev (filter (\<lambda>c. c \<noteq> []) (map category allVideoSlugs))))"

definition staticPages :: "string list" where
  "staticPages = [''/'', ''/about'', ''/privacy'', ''/terms'', ''/contact'']"

definition generateSingleSitemap :: "videoSlug list \<Rightarrow> string \<Rightarrow> response" where
  "generateSingleSitemap allVideoSlugs baseUrl =
     UrlSet (map (\<lambda>p. baseUrl @ p) staticPages
             @ map (\<lambda>c. baseUrl @ ''/?category='' @ c) (categoriesOf allVideoSlugs)
             @ map (videoUrl baseUrl) allVideoSlugs)"

definition generateSitemapIndex :: "videoSlug list \<Rightarrow> string \<Rightarrow> nat \<Rightarrow> response option" where
  \<comment> \<open>\<^verbatim>\<open>Math.ceil(length / maxUrls)\<close> numbered entries after the two fixed ones. With
      \<open>maxUrls = 0\<close> and a non-empty list the bound is infinite and the loop does not end:
      \<^const>\<open>None\<close>.\<close>
  "generateSitemapIndex allVideoSlugs baseUrl maxUrls =
     (if maxUrls = 0 \<and> allVideoSlugs \<noteq> [] then None
      else (let totalSitemaps = (length allVideoSlugs + maxUrls - 1) div maxUrls in
            Some (SitemapIndex
              ([baseUrl @ ''/sitemap-static.xml'', baseUrl @ ''/sitemap-categories.xml'']
               @ map (\<lambda>i. baseUrl @ ''/sitemap-'' @ string_of_nat i @ ''.xml'')
                   [1..<totalSitemaps + 1]))))"

definition generateMainSitemap :: "videoSlug list \<Rightarrow> string \<Rightarrow> response option" where
  "generateMainSitemap allVideoSlugs baseUrl =
     (let totalUrls = 1 + 4 + length (categoriesOf allVideoSlugs) + length allVideoSlugs in
      if totalUrls \<le> MAX_URLS_PER_SITEMAP
      then Some (generateSingleSitemap allVideoSlugs baseUrl)
      else generateSitemapIndex allVideoSlugs baseUrl MAX_URLS_PER_SITEMAP)"

definition sitemapNumberAt :: "string \<Rightarrow> string option" where
  \<comment> \<open>\<^verbatim>\<open>/sitemap-(\d+)\.xml/\<close> at the front\<close>
  "sitemapNumberAt s =
     (if startsWith s ''sitemap-''
      then do {
        (d, r) \<leftarrow> splitDigits (drop 8 s);
        if startsWith r ''.xml'' then Some d else None
      }
      else None)"

definition generateIndividualSitemap :: "videoSlug list \<Rightarrow> string \<Rightarrow> string \<Rightarrow> response" where
  "generateIndividualSitemap allVideoSlugs baseUrl pathname =
     (case searchFirst sitemapNumberAt pathname of
        None \<Rightarrow> NotFound ''Invalid sitemap''
      | Some d \<Rightarrow>
          (let sitemapNumber = int (parseIntDigits d);
               startIndex = (sitemapNumber - 1) * int MAX_URLS_PER_SITEMAP;
               endIndex = startIndex + int MAX_URLS_PER_SITEMAP;
               videoSlugs = jsSlice startIndex endIndex allVideoSlugs
           in if videoSlugs = [] then NotFound ''Sitemap not found''
              else UrlSet (map (videoUrl baseUrl) videoSlugs)))"

section \<open>Auxiliary notions for the statements\<close>

definition videoField :: "jsobject option \<Rightarrow> string \<Rightarrow> jsval option" where
  \<comment> \<open>a field of the video object that \<^const>\<open>parseTranslatedVideo\<close> returned, if it returned one\<close>
  "videoField r k = (case r of None \<Rightarrow> None | Some video \<Rightarrow> getProp video k)"

definition stringOrFalsy :: "jsval \<Rightarrow> bool" where
  "stringOrFalsy v = (isString v \<or> \<not> truthy v)"

definition effectiveTranslator :: "jsobject \<Rightarrow> jsval" where
  \<comment> \<open>the front-matter value that \<^verbatim>\<open>frontmatterData.translator || translator\<close> looks at\<close>
  "effectiveTranslator frontmatterData = orElse (getProp frontmatterData ''translator'') JNull"

definition effectiveDuration :: "jsobject \<Rightarrow> jsval" where
  \<comment> \<open>the value of \<^verbatim>\<open>videoData.duration\<close> after the object literal: the front-matter field
      \<^verbatim>\<open>duration\<close> when there is one, otherwise \<^verbatim>\<open>runtime || ''\<close>\<close>
  "effectiveDuration frontmatterData =
     (case getProp frontmatterData ''duration'' of
        Some v \<Rightarrow> v
      | None \<Rightarrow> orElse (getProp frontmatterData ''runtime'') (JStr []))"

definition effectiveUploadDate :: "host \<Rightarrow> jsobject \<Rightarrow> jsval" where
  \<comment> \<open>the value of \<^verbatim>\<open>videoData.uploadDate\<close> after the object literal: the front-matter field
      \<^verbatim>\<open>uploadDate\<close> when there is one, otherwise \<^verbatim>\<open>dateAdded\<close> or the time of the run\<close>
  "effectiveUploadDate h frontmatterData =
     (case getProp frontmatterData ''uploadDate'' of
        Some v \<Rightarrow> v
      | None \<Rightarrow> orElse (getProp frontmatterData ''dateAdded'') (JStr (nowISO h)))"

definition typeKey :: "jsobject \<Rightarrow> string option" where
  \<comment> \<open>the key under which \<^const>\<open>groupVideos\<close> looks a video up, if its type is truthy and
      converts\<close>
  "typeKey video =
     (if truthy (orElse (getProp video ''contentType'') JNull)
      then toStringJS (orElse (getProp video ''contentType'') JNull)
      else None)"

definition typeKeyThrows :: "jsobject \<Rightarrow> bool" where
  \<comment> \<open>the content type is truthy and its conversion to a property key throws\<close>
  "typeKeyThrows video =
     (truthy (orElse (getProp video ''contentType'') JNull)
      \<and> toStringJS (orElse (getProp video ''contentType'') JNull) = None)"

definition validDate :: "host \<Rightarrow> jsobject \<Rightarrow> bool" where
  \<comment> \<open>the upload date converts and is a valid date\<close>
  "validDate h v = (case uploadTime h v of Inr (Some t) \<Rightarrow> True | _ \<Rightarrow> False)"

definition notEarlier :: "host \<Rightarrow> jsobject \<Rightarrow> jsobject \<Rightarrow> bool" where
  \<comment> \<open>both upload dates are valid and that of \<open>a\<close> is not before that of \<open>b\<close>\<close>
  "notEarlier h a b =
     (case (uploadTime h a, uploadTime h b) of
        (Inr (Some ta), Inr (Some tb)) \<Rightarrow> tb \<le> ta
      | _ \<Rightarrow> False)"

definition exampleHost :: host where
  \<comment> \<open>a host for the concrete runs below: its \<^verbatim>\<open>JSON.parse\<close> reads the empty array and the
      array of one object with the property \<^verbatim>\<open>toString\<close>, and rejects the text \<^verbatim>\<open>[a, b]\<close>, as
      the real one does; the clock stands at the first instant of 2024\<close>
  "exampleHost =
     \<lparr>jsonParse = (\<lambda>s. if s = ''[]'' then Some (JArr [])
                       else if s = ''[{'' @ [CHR 0x22] @ ''toString'' @ [CHR 0x22] @ '': 1}]''
                       then Some (JArr [JObj [(''toString'', JNum 1)]])
                       else None),
      nowISO = ''2024-01-01T00:00:00.000Z'',
      nowMs = 1704067200000,
      dateValue = (\<lambda>v. if v = JStr ''2024-01-01T00:00:00.000Z'' then Some 1704067200000
                        else if v = JStr ''2023-12-31'' then Some 1703980800000
                        else None),
      toLocaleDateString = (\<lambda>t. if t = 1704067200000 then ''January 1, 2024''
                                 else ''December 31, 2023'')\<rparr>"

definition exampleFile :: rawFile where
  "exampleFile =
     \<lparr>name = ''[My-Film][MOVIE][Rocky Kimomo].md'',
      download_url = ''https://raw.example/translated/file.md'',
      html_url = ''https://example/translated/file.md''\<rparr>"

definition exampleVideos :: "jsobject list" where
  \<comment> \<open>two movies, the second uploaded a day after the first, and a documentary without date\<close>
  "exampleVideos =
     [[(''title'', JStr ''Umuti''), (''contentType'', JStr ''MOVIE''),
       (''uploadDate'', JStr ''2023-12-31'')],
      [(''title'', JStr ''Igitego''), (''contentType'', JStr ''MOVIE''),
       (''uploadDate'', JStr ''2024-01-01T00:00:00.000Z'')],
      [(''title'', JStr ''Inzira''), (''contentType'', JStr ''DOCUMENTARY'')]]"

section \<open>Durations: the two formatters\<close>

text \<open>
  C1 (as amended). For the five inputs \<^verbatim>\<open>1:30:00\<close>, \<^verbatim>\<open>45:00\<close>, \<^verbatim>\<open>90 minutes\<close>, \<^verbatim>\<open>2 hours\<close> and
  \<^verbatim>\<open>1h30m\<close> the ISO formatter and the display formatter give the same hour and minute
  components. The groups of \<^verbatim>\<open>H:MM:SS\<close> are copied as they are written, so \<^verbatim>\<open>1:30:00\<close> becomes
  \<^verbatim>\<open>PT1H30M00S\<close> (seconds \<^verbatim>\<open>00\<close>), and \<^verbatim>\<open>1h 30m\<close> for display.
\<close>

theorem duration_formatters_agree:
  "isoHourMinute (convertDurationToISO ''1:30:00'')
     = displayHourMinute (formatDurationForDisplay ''1:30:00'')
   \<and> isoHourMinute (convertDurationToISO ''45:00'')
     = displayHourMinute (formatDurationForDisplay ''45:00'')
   \<and> isoHourMinute (convertDurationToISO ''90 minutes'')
     = displayHourMinute (formatDurationForDisplay ''90 minutes'')
   \<and> isoHourMinute (convertDurationToISO ''2 hours'')
     = displayHourMinute (formatDurationForDisplay ''2 hours'')
   \<and> isoHourMinute (convertDurationToISO ''1h30m'')
     = displayHourMinute (formatDurationForDisplay ''1h30m'')
   \<and> isoHourMinute (convertDurationToISO ''1:30:00'') = Some (Some ''1'', Some ''30'')
   \<and> convertDurationToISO ''1:30:00'' = ''PT1H30M00S''
   \<and> formatDurationForDisplay ''1:30:00'' = ''1h 30m''"
  by code_simp

text \<open>
  C1 as stated fails: the ISO form of \<^verbatim>\<open>1:30:00\<close> is not \<^verbatim>\<open>PT1H30M0S\<close>.
\<close>

theorem iso_of_hms_keeps_written_seconds:
  "convertDurationToISO ''1:30:00'' \<noteq> ''PT1H30M0S''"
  by code_simp

text \<open>
  C5 (as amended). For a duration string that none of the five patterns matches, the ISO
  formatter gives the zero marker \<^verbatim>\<open>PT0M\<close>; the display formatter gives the empty string
  for the empty input and for \<^verbatim>\<open>Not specified\<close>, and gives back the input unchanged otherwise.
\<close>

theorem unmatched_duration:
  "matchesNoPattern d \<Longrightarrow>
     convertDurationToISO d = ''PT0M''
     \<and> formatDurationForDisplay d = (if d = [] \<or> d = ''Not specified'' then [] else d)"
  by (simp add: matchesNoPattern_def convertDurationToISO_def formatDurationForDisplay_def)

theorem unmatched_duration_witness:
  "matchesNoPattern [] \<and> convertDurationToISO [] = ''PT0M''
   \<and> formatDurationForDisplay [] = []
   \<and> matchesNoPattern ''about an hour'' \<and> convertDurationToISO ''about an hour'' = ''PT0M''
   \<and> formatDurationForDisplay ''about an hour'' = ''about an hour''"
proof -
  have m: "matchesNoPattern []" and n: "matchesNoPattern ''about an hour''"
    by code_simp+
  from unmatched_duration [OF m] unmatched_duration [OF n] m n show ?thesis by simp
qed

text \<open>
  C5 as stated fails: \<^verbatim>\<open>abc\<close> matches no pattern and the display formatter returns it as
  it is, not what it returns for the empty input.
\<close>

theorem display_of_unmatched_is_input:
  "matchesNoPattern ''abc'' \<and> formatDurationForDisplay ''abc'' = ''abc''
   \<and> formatDurationForDisplay ''abc'' \<noteq> formatDurationForDisplay []"
  by code_simp

section \<open>Relative dates: the buckets\<close>

lemma string_of_nat_examples:
  "string_of_nat 1 = ''1''" "string_of_nat 2 = ''2''" "string_of_nat 3 = ''3''"
  "string_of_nat 5 = ''5''"
  by code_simp+

lemma string_of_nat_Suc_0: "string_of_nat (Suc 0) = ''1''"
  using string_of_nat_examples(1) by simp

text \<open>
  C8. With the clock at \<open>now\<close>, a date that lies \<open>N\<close> whole days (and less than one further
  day) in the past is shown as \<^verbatim>\<open>Today\<close> for \<open>N = 0\<close>, \<^verbatim>\<open>Yesterday\<close> for \<open>N = 1\<close>, \<^verbatim>\<open>Nd ago\<close> for
  \<open>2 \<le> N \<le> 6\<close>, the floor of \<open>N / 7\<close> with \<^verbatim>\<open>w ago\<close> for \<open>7 \<le> N \<le> 29\<close>, the floor of \<open>N / 30\<close>
  with \<^verbatim>\<open>mo ago\<close> for \<open>30 \<le> N \<le> 364\<close> and the floor of \<open>N / 365\<close> with \<^verbatim>\<open>y ago\<close> from 365 on.
  The witness runs it at 0, 1, 5, 10, 40 and 400 days: \<^verbatim>\<open>Today\<close>, \<^verbatim>\<open>Yesterday\<close>, \<^verbatim>\<open>5d ago\<close>,
  \<^verbatim>\<open>1w ago\<close>, \<^verbatim>\<open>1mo ago\<close>, \<^verbatim>\<open>1y ago\<close>.
\<close>

theorem formatShortDate_buckets:
  assumes "0 \<le> r" and "r < msPerDay"
  shows "formatShortDate now (Some (now - (int N * msPerDay + r))) =
     (if N = 0 then ''Today''
      else if N = 1 then ''Yesterday''
      else if N < 7 then string_of_nat N @ ''d ago''
      else if N < 30 then string_of_nat (N div 7) @ ''w ago''
      else if N < 365 then string_of_nat (N div 30) @ ''mo ago''
      else string_of_nat (N div 365) @ ''y ago'')"
proof -
  have pos: "0 < msPerDay" by (simp add: msPerDay_def)
  have "\<bar>now - (now - (int N * msPerDay + r))\<bar> = int N * msPerDay + r"
    using assms pos by (simp add: abs_if) (smt (verit) mult_nonneg_nonneg of_nat_0_le_iff)
  moreover have "(int N * msPerDay + r) div msPerDay = int N"
    using assms pos by (simp add: div_pos_pos_trivial)
  ultimately show ?thesis
    by (simp add: formatShortDate_def Let_def)
qed

theorem formatShortDate_buckets_witness:
  "(0::int) \<le> 0 \<and> 0 < msPerDay
   \<and> formatShortDate 1704067200000 (Some (1704067200000 - (int 0 * msPerDay + 0))) = ''Today''
   \<and> formatShortDate 1704067200000 (Some (1704067200000 - (int 1 * msPerDay + 0))) = ''Yesterday''
   \<and> formatShortDate 1704067200000 (Some (1704067200000 - (int 5 * msPerDay + 0))) = ''5d ago''
   \<and> formatShortDate 1704067200000 (Some (1704067200000 - (int 10 * msPerDay + 0))) = ''1w ago''
   \<and> formatShortDate 1704067200000 (Some (1704067200000 - (int 40 * msPerDay + 0))) = ''1mo ago''
   \<and> formatShortDate 1704067200000 (Some (1704067200000 - (int 400 * msPerDay + 0))) = ''1y ago''"
proof -
  have a: "(0::int) \<le> 0" by simp
  have b: "0 < msPerDay" by (simp add: msPerDay_def)
  note t = formatShortDate_buckets [OF a b, of 1704067200000]
  show ?thesis
    using a b t [of 0] t [of 1] t [of 5] t [of 10] t [of 40] t [of 400]
    by (simp add: string_of_nat_examples string_of_nat_Suc_0)
qed

section \<open>Slugs are well formed\<close>









section \<open>Objects, the spread and the steps after the object literal\<close>

lemma getProp_Nil: "getProp [] k = None"
  by (simp add: getProp_def)

lemma getProp_Cons:
  "getProp (p # obj) k = (if k = fst p then Some (snd p) else getProp obj k)"
  by (cases p) (auto simp: getProp_def)

lemma getProp_setProp:
  "getProp (setProp k v obj) k' = (if k' = k then Some v else getProp obj k')"
  by (induction obj) (auto simp: getProp_def)

lemma keys_setProp: "set (map fst (setProp k v obj)) = insert k (set (map fst obj))"
  by (induction obj) auto

lemma distinct_setProp:
  "distinct (map fst obj) \<Longrightarrow> distinct (map fst (setProp k v obj))"
  by (induction obj) (auto simp: keys_setProp simp flip: set_map)

lemma distinct_parseLine:
  "distinct (map fst data) \<Longrightarrow> distinct (map fst (parseLine h lines data line))"
  by (auto simp: parseLine_def assignField_def distinct_setProp split: option.splits)

lemma distinct_foldl_parseLine:
  "distinct (map fst data) \<Longrightarrow> distinct (map fst (foldl (parseLine h lines) data ls))"
  by (induction ls arbitrary: data) (auto simp: distinct_parseLine)

lemma distinct_parseYAMLFrontmatter: "distinct (map fst (parseYAMLFrontmatter h content))"
  by (auto simp: parseYAMLFrontmatter_def Let_def distinct_foldl_parseLine split: option.splits)

lemma getProp_spread:
  "distinct (map fst src) \<Longrightarrow>
   getProp (spread obj src) k =
     (case getProp src k of Some v \<Rightarrow> Some v | None \<Rightarrow> getProp obj k)"
proof (induction src arbitrary: obj)
  case Nil
  then show ?case by (simp add: spread_def getProp_Nil)
next
  case (Cons p src)
  have step: "spread obj (p # src) = spread (setProp (fst p) (snd p) obj) src"
    by (simp add: spread_def)
  from Cons.prems have d: "distinct (map fst src)" and nin: "fst p \<notin> fst ` set src"
    by auto
  have none: "getProp src (fst p) = None"
    using nin by (simp add: getProp_def map_of_eq_None_iff)
  show ?case
    unfolding step Cons.IH [OF d]
    using none by (auto simp: getProp_setProp getProp_Cons split: option.splits)
qed

lemma getProp_videoLiteral_duration:
  "getProp (videoLiteral h file t c tr ts (parseYAMLFrontmatter h content)) ''duration''
     = Some (effectiveDuration (parseYAMLFrontmatter h content))"
  by (simp add: videoLiteral_def getProp_spread distinct_parseYAMLFrontmatter
      effectiveDuration_def getProp_Cons getProp_Nil orElse_def split: option.splits)

lemma getProp_videoLiteral_uploadDate:
  "getProp (videoLiteral h file t c tr ts (parseYAMLFrontmatter h content)) ''uploadDate''
     = Some (effectiveUploadDate h (parseYAMLFrontmatter h content))"
  by (simp add: videoLiteral_def getProp_spread distinct_parseYAMLFrontmatter
      effectiveUploadDate_def getProp_Cons getProp_Nil orElse_def split: option.splits)



lemma ensureIsoDuration_keeps:
  "ensureIsoDuration v = Some v' \<Longrightarrow> k \<noteq> ''isoDuration'' \<Longrightarrow> getProp v' k = getProp v k"
  by (auto simp: ensureIsoDuration_def getProp_setProp split: if_splits)

lemma formatUploadDate_keeps:
  "formatUploadDate h v = Some v' \<Longrightarrow> k \<noteq> ''shortDate'' \<Longrightarrow> k \<noteq> ''formattedDate'' \<Longrightarrow>
   getProp v' k = getProp v k"
  by (auto simp: formatUploadDate_def getProp_setProp split: if_splits sum.splits)

lemma formatDuration_keeps:
  "formatDuration v = Some v' \<Longrightarrow> k \<noteq> ''formattedDuration'' \<Longrightarrow> getProp v' k = getProp v k"
  by (auto simp: formatDuration_def getProp_setProp split: if_splits)

lemma parseTranslatedVideo_field:
  assumes "parseTranslatedVideo h (FetchOk content) file = Some video"
    and "k \<notin> {''isoDuration'', ''shortDate'', ''formattedDate'', ''formattedDuration''}"
  shows "\<exists>t c tr s. filenameMatch (name file) = Some (t, c, tr)
           \<and> generateSlugOf
                (orElse (getProp (parseYAMLFrontmatter h content) ''translator'') (JStr tr))
               = Some s
           \<and> getProp video k
               = getProp (videoLiteral h file t c tr s (parseYAMLFrontmatter h content)) k"
proof -
  from assms(1) obtain t c tr where fm: "filenameMatch (name file) = Some (t, c, tr)"
    by (auto simp: parseTranslatedVideo_def split: option.splits)
  let ?fm = "parseYAMLFrontmatter h content"
  from assms(1) fm obtain s v1 v2 where
    s: "generateSlugOf (orElse (getProp ?fm ''translator'') (JStr tr)) = Some s"
    and v1: "ensureIsoDuration (videoLiteral h file t c tr s ?fm) = Some v1"
    and v2: "formatUploadDate h v1 = Some v2"
    and v3: "formatDuration v2 = Some video"
    by (auto simp: parseTranslatedVideo_def Let_def bind_eq_Some_conv)
  from assms(2) have "getProp video k = getProp v2 k"
    using formatDuration_keeps [OF v3] by auto
  also have "\<dots> = getProp v1 k"
    using formatUploadDate_keeps [OF v2] assms(2) by auto
  also have "\<dots> = getProp (videoLiteral h file t c tr s ?fm) k"
    using ensureIsoDuration_keeps [OF v1] assms(2) by auto
  finally show ?thesis using fm s by blast
qed




section \<open>Which files yield a video object\<close>

lemma generateSlugOf_defined:
  "(generateSlugOf (orElse a (JStr tr)) \<noteq> None) = stringOrFalsy (orElse a JNull)"
proof (cases a)
  case None
  then show ?thesis by (simp add: orElse_def generateSlugOf_def stringOrFalsy_def)
next
  case (Some v)
  then show ?thesis
    by (cases v) (auto simp: orElse_def generateSlugOf_def stringOrFalsy_def)
qed

lemma convertDurationToISOOf_defined: "(convertDurationToISOOf v \<noteq> None) = stringOrFalsy v"
  by (cases v) (auto simp: convertDurationToISOOf_def stringOrFalsy_def)

lemma formatDurationForDisplayOf_defined:
  "(formatDurationForDisplayOf v \<noteq> None) = stringOrFalsy v"
  by (cases v) (auto simp: formatDurationForDisplayOf_def stringOrFalsy_def)

lemma formatDuration_defined:
  assumes "getProp v ''duration'' = Some dur"
  shows "(formatDuration v \<noteq> None) = stringOrFalsy dur"
proof (cases "truthy dur")
  case False
  with assms show ?thesis by (simp add: formatDuration_def orElse_def stringOrFalsy_def)
next
  case True
  show ?thesis
  proof (cases "dur = JStr ''Not specified''")
    case True
    with assms show ?thesis by (simp add: formatDuration_def orElse_def stringOrFalsy_def)
  next
    case False
    with True assms show ?thesis
      using formatDurationForDisplayOf_defined [of dur]
      by (auto simp: formatDuration_def orElse_def)
  qed
qed

lemma ensureIsoDuration_defined:
  assumes "getProp v ''duration'' = Some dur" and "stringOrFalsy dur"
  shows "ensureIsoDuration v \<noteq> None"
  using assms convertDurationToISOOf_defined [of dur]
  by (auto simp: ensureIsoDuration_def orElse_def)

lemma toPrimitive_falsy: "\<not> truthy v \<Longrightarrow> toPrimitive v \<noteq> None"
  by (cases v) auto

lemma formatUploadDate_defined:
  assumes "getProp v ''uploadDate'' = Some ud"
  shows "(formatUploadDate h v \<noteq> None) = (toPrimitive ud \<noteq> None)"
proof (cases "truthy ud")
  case False
  with assms toPrimitive_falsy [of ud] show ?thesis
    by (simp add: formatUploadDate_def orElse_def)
next
  case True
  with assms show ?thesis
    by (auto simp: formatUploadDate_def orElse_def newDate_def split: option.splits)
qed

lemma steps_after_literal_defined:
  assumes d: "getProp lit ''duration'' = Some dur"
    and u: "getProp lit ''uploadDate'' = Some ud"
  shows "((ensureIsoDuration lit \<bind>
            (\<lambda>v1. formatUploadDate h v1 \<bind> (\<lambda>v2. formatDuration v2))) \<noteq> None)
           = (stringOrFalsy dur \<and> toPrimitive ud \<noteq> None)"
proof (cases "ensureIsoDuration lit")
  case None
  with ensureIsoDuration_defined [OF d] show ?thesis by auto
next
  case v1: (Some v1)
  have d1: "getProp v1 ''duration'' = Some dur" and u1: "getProp v1 ''uploadDate'' = Some ud"
    using ensureIsoDuration_keeps [OF v1] d u by auto
  show ?thesis
  proof (cases "formatUploadDate h v1")
    case None
    with formatUploadDate_defined [OF u1, of h] v1 show ?thesis by simp
  next
    case v2: (Some v2)
    have "getProp v2 ''duration'' = Some dur"
      using formatUploadDate_keeps [OF v2, of "''duration''"] d1 by simp
    from formatDuration_defined [OF this] formatUploadDate_defined [OF u1, of h] v1 v2
    show ?thesis by simp
  qed
qed

text \<open>
  C4 (as amended). A file whose name does not match the three-bracket pattern yields no
  video object. A file whose name matches and whose content is available yields one exactly
  when no step inside the \<^verbatim>\<open>try\<close> throws, that is when the front-matter value of
  \<^verbatim>\<open>translator\<close> is a string or falsy, the duration of the object (the front-matter field
  \<^verbatim>\<open>duration\<close> if there is one, otherwise \<^verbatim>\<open>runtime\<close>) is a string or falsy, and the upload date
  of the object (the front-matter field \<^verbatim>\<open>uploadDate\<close> if there is one, otherwise \<^verbatim>\<open>dateAdded\<close>
  or the time of the run) converts to a primitive for \<^verbatim>\<open>new Date\<close>; otherwise the \<^verbatim>\<open>catch\<close>
  returns \<^verbatim>\<open>null\<close>.
\<close>

theorem parseTranslatedVideo_yields_object:
  "(filenameMatch (name file) = None \<longrightarrow> parseTranslatedVideo h fetched file = None)
   \<and> (filenameMatch (name file) \<noteq> None \<longrightarrow>
        (parseTranslatedVideo h (FetchOk content) file \<noteq> None)
          = (stringOrFalsy (effectiveTranslator (parseYAMLFrontmatter h content))
             \<and> stringOrFalsy (effectiveDuration (parseYAMLFrontmatter h content))
             \<and> toPrimitive (effectiveUploadDate h (parseYAMLFrontmatter h content)) \<noteq> None))"
proof (intro conjI impI)
  assume "filenameMatch (name file) = None"
  then show "parseTranslatedVideo h fetched file = None"
    by (simp add: parseTranslatedVideo_def)
next
  let ?fm = "parseYAMLFrontmatter h content"
  assume "filenameMatch (name file) \<noteq> None"
  then obtain t c tr where m: "filenameMatch (name file) = Some (t, c, tr)" by auto
  show "(parseTranslatedVideo h (FetchOk content) file \<noteq> None)
          = (stringOrFalsy (effectiveTranslator ?fm) \<and> stringOrFalsy (effectiveDuration ?fm)
             \<and> toPrimitive (effectiveUploadDate h ?fm) \<noteq> None)"
  proof (cases "generateSlugOf (orElse (getProp ?fm ''translator'') (JStr tr))")
    case None
    then have "\<not> stringOrFalsy (effectiveTranslator ?fm)"
      using generateSlugOf_defined [of "getProp ?fm ''translator''" tr]
      by (simp add: effectiveTranslator_def)
    with None m show ?thesis by (simp add: parseTranslatedVideo_def Let_def)
  next
    case (Some ts)
    then have tr: "stringOrFalsy (effectiveTranslator ?fm)"
      using generateSlugOf_defined [of "getProp ?fm ''translator''" tr]
      by (simp add: effectiveTranslator_def)
    have "(parseTranslatedVideo h (FetchOk content) file \<noteq> None)
            = ((ensureIsoDuration (videoLiteral h file t c tr ts ?fm)
                 \<bind> (\<lambda>v1. formatUploadDate h v1 \<bind> (\<lambda>v2. formatDuration v2))) \<noteq> None)"
      using m Some by (simp add: parseTranslatedVideo_def Let_def)
    also have "\<dots> = (stringOrFalsy (effectiveDuration ?fm)
                      \<and> toPrimitive (effectiveUploadDate h ?fm) \<noteq> None)"
      by (rule steps_after_literal_defined)
         (rule getProp_videoLiteral_duration, rule getProp_videoLiteral_uploadDate)
    finally show ?thesis using tr by simp
  qed
qed

theorem parseTranslatedVideo_yields_object_witness:
  "filenameMatch (name \<lparr>name = ''notes.md'', download_url = [], html_url = []\<rparr>) = None
   \<and> parseTranslatedVideo exampleHost (FetchOk [])
        \<lparr>name = ''notes.md'', download_url = [], html_url = []\<rparr> = None
   \<and> filenameMatch (name exampleFile) \<noteq> None
   \<and> stringOrFalsy (effectiveTranslator (parseYAMLFrontmatter exampleHost
        ''---\<newline>translator: Junior Giti\<newline>runtime: 90 min\<newline>---\<newline>''))
   \<and> stringOrFalsy (effectiveDuration (parseYAMLFrontmatter exampleHost
        ''---\<newline>translator: Junior Giti\<newline>runtime: 90 min\<newline>---\<newline>''))
   \<and> toPrimitive (effectiveUploadDate exampleHost (parseYAMLFrontmatter exampleHost
        ''---\<newline>translator: Junior Giti\<newline>runtime: 90 min\<newline>---\<newline>''))
       = Some (JStr ''2024-01-01T00:00:00.000Z'')
   \<and> parseTranslatedVideo exampleHost
        (FetchOk ''---\<newline>translator: Junior Giti\<newline>runtime: 90 min\<newline>---\<newline>'') exampleFile \<noteq> None
   \<and> effectiveUploadDate exampleHost (parseYAMLFrontmatter exampleHost
        ''---\<newline>uploadDate: [{\"toString\": 1}]\<newline>---\<newline>'')
       = JArr [JObj [(''toString'', JNum 1)]]
   \<and> toPrimitive (JArr [JObj [(''toString'', JNum 1)]]) = None
   \<and> parseTranslatedVideo exampleHost
        (FetchOk ''---\<newline>uploadDate: [{\"toString\": 1}]\<newline>---\<newline>'') exampleFile = None"
proof -
  let ?c = "''---\<newline>translator: Junior Giti\<newline>runtime: 90 min\<newline>---\<newline>''"
  let ?d = "''---\<newline>uploadDate: [{\"toString\": 1}]\<newline>---\<newline>''"
  let ?f = "\<lparr>name = ''notes.md'', download_url = [], html_url = []\<rparr>"
  have a: "filenameMatch (name ?f) = None" by code_simp
  have b: "filenameMatch (name exampleFile) \<noteq> None" by code_simp
  have c: "stringOrFalsy (effectiveTranslator (parseYAMLFrontmatter exampleHost ?c))"
    by code_simp
  have d: "stringOrFalsy (effectiveDuration (parseYAMLFrontmatter exampleHost ?c))"
    by code_simp
  have e: "toPrimitive (effectiveUploadDate exampleHost (parseYAMLFrontmatter exampleHost ?c))
             = Some (JStr ''2024-01-01T00:00:00.000Z'')"
    by code_simp
  have f: "effectiveUploadDate exampleHost (parseYAMLFrontmatter exampleHost ?d)
             = JArr [JObj [(''toString'', JNum 1)]]"
    by code_simp
  have g: "toPrimitive (JArr [JObj [(''toString'', JNum 1)]]) = None"
    by code_simp
  from parseTranslatedVideo_yields_object [of ?f exampleHost "FetchOk []"]
       parseTranslatedVideo_yields_object [of exampleFile exampleHost _ ?c]
       parseTranslatedVideo_yields_object [of exampleFile exampleHost _ ?d]
       a b c d e f g
  show ?thesis by simp
qed

text \<open>
  C4 as stated fails: the name matches and the content is there, but the front-matter
  makes \<^verbatim>\<open>translator\<close> the boolean \<^verbatim>\<open>true\<close>, and the result is \<^verbatim>\<open>null\<close>.
\<close>

theorem matching_file_without_object:
  "filenameMatch (name exampleFile) \<noteq> None
   \<and> parseTranslatedVideo exampleHost (FetchOk ''---\<newline>translator: true\<newline>---\<newline>'') exampleFile
       = None"
  by code_simp

section \<open>Runtime and duration\<close>

text \<open>
  C10. When the front-matter of a file defines both \<^verbatim>\<open>runtime\<close> and \<^verbatim>\<open>duration\<close>, the field
  \<^verbatim>\<open>duration\<close> of the video object is the front-matter value of \<^verbatim>\<open>duration\<close>: the spread of the
  front-matter at the end of the object literal overwrites the value that preferred
  \<^verbatim>\<open>runtime\<close>.
\<close>

theorem frontmatter_duration_overrides_runtime:
  assumes "parseTranslatedVideo h (FetchOk content) file \<noteq> None"
    and "getProp (parseYAMLFrontmatter h content) ''runtime'' = Some r"
    and "getProp (parseYAMLFrontmatter h content) ''duration'' = Some d"
  shows "videoField (parseTranslatedVideo h (FetchOk content) file) ''duration'' = Some d"
proof -
  from assms(1) obtain video
    where v: "parseTranslatedVideo h (FetchOk content) file = Some video"
    by auto
  from parseTranslatedVideo_field [OF v, of "''duration''"]
  have "getProp video ''duration''
          = Some (effectiveDuration (parseYAMLFrontmatter h content))"
    by (auto simp: getProp_videoLiteral_duration)
  then show ?thesis
    using v assms(3) by (simp add: videoField_def effectiveDuration_def)
qed

theorem frontmatter_duration_overrides_runtime_witness:
  "parseTranslatedVideo exampleHost
     (FetchOk ''---\<newline>runtime: 90 min\<newline>duration: 1:30:00\<newline>---\<newline>'') exampleFile \<noteq> None
   \<and> getProp (parseYAMLFrontmatter exampleHost
        ''---\<newline>runtime: 90 min\<newline>duration: 1:30:00\<newline>---\<newline>'') ''runtime''
       = Some (JStr ''90 min'')
   \<and> getProp (parseYAMLFrontmatter exampleHost
        ''---\<newline>runtime: 90 min\<newline>duration: 1:30:00\<newline>---\<newline>'') ''duration''
       = Some (JStr ''1:30:00'')
   \<and> videoField
        (parseTranslatedVideo exampleHost
           (FetchOk ''---\<newline>runtime: 90 min\<newline>duration: 1:30:00\<newline>---\<newline>'') exampleFile)
        ''duration'' = Some (JStr ''1:30:00'')"
proof -
  let ?c = "''---\<newline>runtime: 90 min\<newline>duration: 1:30:00\<newline>---\<newline>''"
  have a: "parseTranslatedVideo exampleHost (FetchOk ?c) exampleFile \<noteq> None"
    by code_simp
  have b: "getProp (parseYAMLFrontmatter exampleHost ?c) ''runtime'' = Some (JStr ''90 min'')"
    by code_simp
  have c: "getProp (parseYAMLFrontmatter exampleHost ?c) ''duration'' = Some (JStr ''1:30:00'')"
    by code_simp
  from frontmatter_duration_overrides_runtime [OF a b c] a b c show ?thesis by simp
qed

section \<open>Identical lines in the front-matter\<close>

text \<open>
  C9. There is a front-matter block with two fields whose lines \<^verbatim>\<open>genre:\<close> are identical, the
  first followed by the list item \<^verbatim>\<open>a\<close> and the second by the list item \<^verbatim>\<open>b\<close>, for which the
  parser gives the later field the list of the first occurrence: the result maps \<^verbatim>\<open>genre\<close> to
  the list holding \<^verbatim>\<open>a\<close>, because \<^verbatim>\<open>lines.indexOf(line)\<close> finds the first of the two lines.
\<close>

theorem duplicate_line_takes_first_list:
  "\<exists>lines i j. i < j \<and> j < length lines \<and> lines ! i = lines ! j
     \<and> matchKeyValue (lines ! j) = Some (''genre'', [])
     \<and> indexOf lines (lines ! j) = int i
     \<and> collectListItems (drop (Suc i) lines) = [''a'']
     \<and> collectListItems (drop (Suc j) lines) = [''b'']
     \<and> fieldValue h lines (lines ! j) ''genre'' [] = JArr [JStr ''a'']
     \<and> parseYAMLFrontmatter h (''---\<newline>'' @ joinWith ''\<newline>'' lines @ ''\<newline>---\<newline>'')
         = [(''genre'', JArr [JStr ''a'']), (''year'', JStr ''2020'')]"
proof -
  let ?lines = "[''genre:'', ''- a'', ''year: 2020'', ''genre:'', ''- b'']"
  have "0 < (3::nat) \<and> 3 < length ?lines \<and> ?lines ! 0 = ?lines ! 3
     \<and> matchKeyValue (?lines ! 3) = Some (''genre'', [])
     \<and> indexOf ?lines (?lines ! 3) = int 0
     \<and> collectListItems (drop (Suc 0) ?lines) = [''a'']
     \<and> collectListItems (drop (Suc 3) ?lines) = [''b'']
     \<and> fieldValue h ?lines (?lines ! 3) ''genre'' [] = JArr [JStr ''a'']
     \<and> parseYAMLFrontmatter h (''---\<newline>'' @ joinWith ''\<newline>'' ?lines @ ''\<newline>---\<newline>'')
         = [(''genre'', JArr [JStr ''a'']), (''year'', JStr ''2020'')]"
    by code_simp
  then show ?thesis by blast
qed

section \<open>Latest videos by type: grouping and order\<close>

lemma groupVideos_filter:
  "groupVideos videos (m, s) = Inr (m', s') \<Longrightarrow>
     m' = m @ filter (\<lambda>v. typeKey v = Some ''MOVIE'') videos
     \<and> s' = s @ filter (\<lambda>v. typeKey v = Some ''TV-SERIES'') videos"
proof (induction videos arbitrary: m s)
  case Nil
  then show ?case by simp
next
  case (Cons v videos)
  let ?ct = "orElse (getProp v ''contentType'') JNull"
  show ?case
  proof (cases "truthy ?ct")
    case False
    then have "groupVideos (v # videos) (m, s) = groupVideos videos (m, s)"
      and "typeKey v = None"
      by (simp_all add: typeKey_def)
    with Cons show ?thesis by simp
  next
    case True
    show ?thesis
    proof (cases "toStringJS ?ct")
      case None
      with True Cons.prems show ?thesis by simp
    next
      case (Some k)
      with True have tk: "typeKey v = Some k" by (simp add: typeKey_def)
      consider "k = ''MOVIE''" | "k = ''TV-SERIES''" | "k \<noteq> ''MOVIE''" "k \<noteq> ''TV-SERIES''"
        by blast
      then show ?thesis
      proof cases
        case 1
        with True Some have "groupVideos (v # videos) (m, s) = groupVideos videos (m @ [v], s)"
          by simp
        with Cons.prems Cons.IH [of "m @ [v]" s] tk 1 show ?thesis by simp
      next
        case 2
        with True Some have "groupVideos (v # videos) (m, s) = groupVideos videos (m, s @ [v])"
          by simp
        with Cons.prems Cons.IH [of m "s @ [v]"] tk 2 show ?thesis by simp
      next
        case 3
        with True Some Cons.prems have "groupVideos videos (m, s) = Inr (m', s')"
          by (simp split: if_splits)
        with Cons.IH [of m s] tk 3 show ?thesis by simp
      qed
    qed
  qed
qed

lemma groupVideos_total:
  "\<forall>v\<in>set videos. \<not> typeKeyThrows v
       \<and> (\<forall>k. typeKey v = Some k \<longrightarrow> k \<notin> set objectPrototypeKeys) \<Longrightarrow>
   \<exists>g. groupVideos videos (m, s) = Inr g"
proof (induction videos arbitrary: m s)
  case Nil
  then show ?case by simp
next
  case (Cons v videos)
  then show ?case
    by (auto simp: typeKey_def typeKeyThrows_def split: if_splits option.splits)
qed

lemma mset_insertByDate:
  "insertByDate h x ys = Inr zs \<Longrightarrow> mset zs = add_mset x (mset ys)"
  by (induction ys arbitrary: zs) (auto split: sum.splits if_splits)

lemma mset_sortByDate: "sortByDate h xs = Inr ys \<Longrightarrow> mset ys = mset xs"
  by (induction xs arbitrary: ys) (auto split: sum.splits dest: mset_insertByDate)

lemma compareByDate_valid:
  "validDate h x \<Longrightarrow> validDate h y \<Longrightarrow>
   \<exists>c. compareByDate h x y = Inr c \<and> notAfter c = notEarlier h x y"
  by (auto simp: validDate_def compareByDate_def notAfter_def notEarlier_def
      split: sum.splits option.splits)

lemma notEarlier_total:
  "validDate h x \<Longrightarrow> validDate h y \<Longrightarrow> \<not> notEarlier h x y \<Longrightarrow> notEarlier h y x"
  by (auto simp: validDate_def notEarlier_def split: sum.splits option.splits)

lemma notEarlier_trans: "notEarlier h x y \<Longrightarrow> notEarlier h y z \<Longrightarrow> notEarlier h x z"
  by (auto simp: notEarlier_def split: sum.splits option.splits)

lemma sorted_insertByDate:
  assumes "validDate h x" and "\<forall>y\<in>set ys. validDate h y"
    and "sorted_wrt (notEarlier h) ys" and "insertByDate h x ys = Inr zs"
  shows "sorted_wrt (notEarlier h) zs"
  using assms
proof (induction ys arbitrary: zs)
  case Nil
  then show ?case by auto
next
  case (Cons y ys)
  from Cons.prems obtain c where c: "compareByDate h x y = Inr c"
    and na: "notAfter c = notEarlier h x y"
    using compareByDate_valid [of h x y] by auto
  show ?case
  proof (cases "notAfter c")
    case True
    with na have xy: "notEarlier h x y" by simp
    with Cons.prems have "\<forall>z\<in>set ys. notEarlier h x z"
      using notEarlier_trans by auto
    with True c xy Cons.prems show ?thesis by auto
  next
    case False
    with c Cons.prems obtain ws where ws: "insertByDate h x ys = Inr ws" and zs: "zs = y # ws"
      by (auto split: sum.splits)
    from False na Cons.prems have yx: "notEarlier h y x"
      using notEarlier_total [of h x y] by simp
    have "sorted_wrt (notEarlier h) ws"
      using Cons.IH [OF _ _ _ ws] Cons.prems by simp
    moreover have "set ws = insert x (set ys)"
      using mset_insertByDate [OF ws] by (metis set_mset_add_mset_insert set_mset_mset)
    ultimately show ?thesis using zs yx Cons.prems by auto
  qed
qed

lemma sorted_sortByDate:
  "\<forall>v\<in>set xs. validDate h v \<Longrightarrow> sortByDate h xs = Inr ys \<Longrightarrow>
   sorted_wrt (notEarlier h) ys"
proof (induction xs arbitrary: ys)
  case Nil
  then show ?case by simp
next
  case (Cons x xs)
  from Cons.prems obtain ws where ws: "sortByDate h xs = Inr ws"
    and ys: "insertByDate h x ws = Inr ys"
    by (auto split: sum.splits)
  have "set ws = set xs" using mset_sortByDate [OF ws] by (metis set_mset_mset)
  with Cons.prems have "\<forall>y\<in>set ws. validDate h y" by simp
  moreover have "sorted_wrt (notEarlier h) ws" using Cons.IH [OF _ ws] Cons.prems by simp
  ultimately show ?case using sorted_insertByDate [OF _ _ _ ys] Cons.prems by simp
qed

lemma compareByDate_total:
  "uploadTime h x \<noteq> Inl TypeError \<Longrightarrow> uploadTime h y \<noteq> Inl TypeError \<Longrightarrow>
   \<exists>c. compareByDate h x y = Inr c"
  by (cases "uploadTime h x"; cases "uploadTime h y")
     (auto simp: compareByDate_def intro: error.exhaust)

lemma insertByDate_total:
  "uploadTime h x \<noteq> Inl TypeError \<Longrightarrow> \<forall>y\<in>set ys. uploadTime h y \<noteq> Inl TypeError \<Longrightarrow>
   \<exists>zs. insertByDate h x ys = Inr zs"
proof (induction ys)
  case Nil
  then show ?case by simp
next
  case (Cons y ys)
  then obtain c zs where "compareByDate h x y = Inr c" and "insertByDate h x ys = Inr zs"
    using compareByDate_total [of h x y] by auto
  then show ?case by simp
qed

lemma sortByDate_total:
  "\<forall>v\<in>set xs. uploadTime h v \<noteq> Inl TypeError \<Longrightarrow> \<exists>ys. sortByDate h xs = Inr ys"
proof (induction xs)
  case Nil
  then show ?case by simp
next
  case (Cons x xs)
  then obtain ws where ws: "sortByDate h xs = Inr ws" by auto
  have "set ws = set xs" using mset_sortByDate [OF ws] by (metis set_mset_mset)
  with Cons.prems obtain ys where "insertByDate h x ws = Inr ys"
    using insertByDate_total [of h x ws] by auto
  with ws show ?case by simp
qed

lemma jsSlice_prefix: "0 \<le> limit \<Longrightarrow> jsSlice 0 limit xs = take (nat limit) xs"
  by (auto simp: jsSlice_def Let_def min_def)

lemma jsSlice_from_start: "\<exists>n. jsSlice 0 limit xs = take n xs"
  by (auto simp: jsSlice_def Let_def)

lemma mset_take_subset:
  assumes "mset ys = mset xs"
  shows "mset (take n ys) \<subseteq># mset xs"
proof -
  have "mset xs = mset (take n ys) + mset (drop n ys)"
    using assms by (metis append_take_drop_id mset_append)
  then show ?thesis by simp
qed

lemma latest_of_sorted:
  assumes m: "mset ys = mset xs" and s: "sorted_wrt R ys"
  shows "sorted_wrt R (take n ys)
         \<and> (\<forall>v\<in>#mset xs - mset (take n ys). \<forall>w\<in>set (take n ys). R w v)"
proof -
  have "mset xs = mset (take n ys) + mset (drop n ys)"
    using m by (metis append_take_drop_id mset_append)
  then have rest: "mset xs - mset (take n ys) = mset (drop n ys)"
    by simp
  have "sorted_wrt R (take n ys @ drop n ys)" using s by simp
  then have "\<forall>w\<in>set (take n ys). \<forall>v\<in>set (drop n ys). R w v"
    unfolding sorted_wrt_append by blast
  then show ?thesis
    using s rest by (auto simp: sorted_wrt_take)
qed

lemma partition_of_sorted:
  assumes srt: "sortByDate h xs = Inr ys" and sub: "set xs \<subseteq> set videos"
  shows "mset (jsSlice 0 limit ys) \<subseteq># mset xs
       \<and> (0 \<le> limit \<longrightarrow> length (jsSlice 0 limit ys) = min (nat limit) (length xs))
       \<and> ((\<forall>v\<in>set videos. validDate h v) \<longrightarrow>
            sorted_wrt (notEarlier h) (jsSlice 0 limit ys)
            \<and> (\<forall>v\<in>#mset xs - mset (jsSlice 0 limit ys).
                  \<forall>w\<in>set (jsSlice 0 limit ys). notEarlier h w v))"
proof -
  obtain n where n: "jsSlice 0 limit ys = take n ys"
    using jsSlice_from_start by blast
  have m: "mset ys = mset xs" by (rule mset_sortByDate [OF srt])
  then have len: "length ys = length xs" by (metis size_mset)
  have 1: "mset (jsSlice 0 limit ys) \<subseteq># mset xs"
    unfolding n by (rule mset_take_subset [OF m])
  have 2: "0 \<le> limit \<longrightarrow> length (jsSlice 0 limit ys) = min (nat limit) (length xs)"
    using len by (auto simp: jsSlice_prefix min_def)
  have 3: "sorted_wrt (notEarlier h) (jsSlice 0 limit ys)
            \<and> (\<forall>v\<in>#mset xs - mset (jsSlice 0 limit ys).
                  \<forall>w\<in>set (jsSlice 0 limit ys). notEarlier h w v)"
    if "\<forall>v\<in>set videos. validDate h v"
  proof -
    from that sub have "\<forall>v\<in>set xs. validDate h v" by auto
    then have "sorted_wrt (notEarlier h) ys" using srt by (rule sorted_sortByDate)
    from latest_of_sorted [OF m this, of n] show ?thesis unfolding n .
  qed
  from 1 2 3 show ?thesis by blast
qed

text \<open>
  C6 (as amended). Whenever \<^verbatim>\<open>getLatestVideosByType(videos, limit)\<close> returns, the result has
  exactly the two partitions \<^verbatim>\<open>MOVIE\<close> and \<^verbatim>\<open>TV-SERIES\<close>, and each holds only records whose
  content type converts to its key, so a record of any other content type is in no
  partition. For a limit that is not negative the length of a partition is the smaller of
  \<open>limit\<close> and the number of records of its type; when all upload dates are valid it is sorted
  by upload date descending and no record of the type left out is later than one kept. The
  call returns whenever no truthy content type throws in its conversion to a key or names a
  property inherited from \<^verbatim>\<open>Object.prototype\<close>, and no upload date throws in its conversion.
\<close>

theorem getLatestVideosByType_partitions:
  "(getLatestVideosByType h videos limit = Inr groups \<longrightarrow>
      map fst groups = [''MOVIE'', ''TV-SERIES'']
      \<and> (\<forall>(t, vs)\<in>set groups.
            mset vs \<subseteq># mset (filter (\<lambda>v. typeKey v = Some t) videos)
            \<and> (0 \<le> limit \<longrightarrow>
                 length vs = min (nat limit) (length (filter (\<lambda>v. typeKey v = Some t) videos)))
            \<and> ((\<forall>v\<in>set videos. validDate h v) \<longrightarrow>
                 sorted_wrt (notEarlier h) vs
                 \<and> (\<forall>v\<in>#mset (filter (\<lambda>v. typeKey v = Some t) videos) - mset vs.
                       \<forall>w\<in>set vs. notEarlier h w v))))
   \<and> ((\<forall>v\<in>set videos. \<not> typeKeyThrows v
           \<and> (\<forall>k. typeKey v = Some k \<longrightarrow> k \<notin> set objectPrototypeKeys)
           \<and> uploadTime h v \<noteq> Inl TypeError) \<longrightarrow>
        (\<exists>groups. getLatestVideosByType h videos limit = Inr groups))"
proof (intro conjI impI)
  assume ok: "\<forall>v\<in>set videos. \<not> typeKeyThrows v
           \<and> (\<forall>k. typeKey v = Some k \<longrightarrow> k \<notin> set objectPrototypeKeys)
           \<and> uploadTime h v \<noteq> Inl TypeError"
  then obtain m s where g: "groupVideos videos ([], []) = Inr (m, s)"
    using groupVideos_total [of videos "[]" "[]"] by auto
  from groupVideos_filter [OF g] have "set m \<subseteq> set videos" "set s \<subseteq> set videos"
    by auto
  with ok obtain ms ss where "sortByDate h m = Inr ms" "sortByDate h s = Inr ss"
    using sortByDate_total [of m h] sortByDate_total [of s h] by blast
  with g show "\<exists>groups. getLatestVideosByType h videos limit = Inr groups"
    by (simp add: getLatestVideosByType_def)
next
  assume res: "getLatestVideosByType h videos limit = Inr groups"
  then obtain m s ms ss where g: "groupVideos videos ([], []) = Inr (m, s)"
    and ms: "sortByDate h m = Inr ms" and ss: "sortByDate h s = Inr ss"
    and groups: "groups = [(''MOVIE'', jsSlice 0 limit ms), (''TV-SERIES'', jsSlice 0 limit ss)]"
    by (auto simp: getLatestVideosByType_def split: sum.splits)
  from groupVideos_filter [OF g]
  have m: "m = filter (\<lambda>v. typeKey v = Some ''MOVIE'') videos"
    and s: "s = filter (\<lambda>v. typeKey v = Some ''TV-SERIES'') videos" by auto
  show "map fst groups = [''MOVIE'', ''TV-SERIES'']" using groups by simp
  have pm: "set m \<subseteq> set videos" and ps: "set s \<subseteq> set videos" using m s by auto
  show "\<forall>(t, vs)\<in>set groups.
            mset vs \<subseteq># mset (filter (\<lambda>v. typeKey v = Some t) videos)
            \<and> (0 \<le> limit \<longrightarrow>
                 length vs = min (nat limit) (length (filter (\<lambda>v. typeKey v = Some t) videos)))
            \<and> ((\<forall>v\<in>set videos. validDate h v) \<longrightarrow>
                 sorted_wrt (notEarlier h) vs
                 \<and> (\<forall>v\<in>#mset (filter (\<lambda>v. typeKey v = Some t) videos) - mset vs.
                       \<forall>w\<in>set vs. notEarlier h w v))"
    using partition_of_sorted [OF ms pm, where limit = limit]
      partition_of_sorted [OF ss ps, where limit = limit]
    unfolding groups m s by simp
qed

theorem getLatestVideosByType_partitions_witness:
  "list_all (validDate exampleHost) exampleVideos \<and> (0::int) \<le> 1
   \<and> map typeKeyThrows exampleVideos = [False, False, False]
   \<and> map typeKey exampleVideos = [Some ''MOVIE'', Some ''MOVIE'', Some ''DOCUMENTARY'']
   \<and> list_all (\<lambda>k. k \<notin> set objectPrototypeKeys) [''MOVIE'', ''DOCUMENTARY'']
   \<and> getLatestVideosByType exampleHost exampleVideos 1
       = Inr [(''MOVIE'', [exampleVideos ! 1]), (''TV-SERIES'', [])]
   \<and> mset [exampleVideos ! 1]
       \<subseteq># mset (filter (\<lambda>v. typeKey v = Some ''MOVIE'') exampleVideos)
   \<and> sorted_wrt (notEarlier exampleHost) [exampleVideos ! 1]
   \<and> length [exampleVideos ! 1]
       = min (nat 1) (length (filter (\<lambda>v. typeKey v = Some ''MOVIE'') exampleVideos))
   \<and> notEarlier exampleHost (exampleVideos ! 1) (exampleVideos ! 0)
   \<and> typeKeyThrows [(''contentType'', JArr [JObj [(''toString'', JNum 1)]])]
   \<and> getLatestVideosByType exampleHost
        [[(''contentType'', JArr [JObj [(''toString'', JNum 1)]])]] 8 = Inl TypeError"
proof -
  have valid: "\<forall>v\<in>set exampleVideos. validDate exampleHost v"
    by code_simp
  have lim: "(0::int) \<le> 1" by simp
  have keys: "map typeKeyThrows exampleVideos = [False, False, False]"
    "map typeKey exampleVideos = [Some ''MOVIE'', Some ''MOVIE'', Some ''DOCUMENTARY'']"
    "list_all (\<lambda>k. k \<notin> set objectPrototypeKeys) [''MOVIE'', ''DOCUMENTARY'']"
    by code_simp+
  have res: "getLatestVideosByType exampleHost exampleVideos 1
       = Inr [(''MOVIE'', [exampleVideos ! 1]), (''TV-SERIES'', [])]"
    by code_simp
  have thrown: "typeKeyThrows [(''contentType'', JArr [JObj [(''toString'', JNum 1)]])]"
    "getLatestVideosByType exampleHost
        [[(''contentType'', JArr [JObj [(''toString'', JNum 1)]])]] 8 = Inl TypeError"
    by code_simp+
  have rest: "mset (filter (\<lambda>v. typeKey v = Some ''MOVIE'') exampleVideos)
                - mset [exampleVideos ! 1] = {#exampleVideos ! 0#}"
    using keys(2) by (simp add: exampleVideos_def)
  from getLatestVideosByType_partitions
         [of exampleHost exampleVideos 1 "[(''MOVIE'', [exampleVideos ! 1]), (''TV-SERIES'', [])]"]
       res valid lim
  have movie: "mset [exampleVideos ! 1]
         \<subseteq># mset (filter (\<lambda>v. typeKey v = Some ''MOVIE'') exampleVideos)
       \<and> sorted_wrt (notEarlier exampleHost) [exampleVideos ! 1]
       \<and> length [exampleVideos ! 1]
           = min (nat 1) (length (filter (\<lambda>v. typeKey v = Some ''MOVIE'') exampleVideos))
       \<and> (\<forall>v\<in>#mset (filter (\<lambda>v. typeKey v = Some ''MOVIE'') exampleVideos)
                 - mset [exampleVideos ! 1].
            \<forall>w\<in>set [exampleVideos ! 1]. notEarlier exampleHost w v)"
    by simp
  then have "notEarlier exampleHost (exampleVideos ! 1) (exampleVideos ! 0)"
    unfolding rest by simp
  with movie valid lim keys res thrown show ?thesis
    by (simp add: list_all_iff)
qed

text \<open>
  C6 as stated fails: the third example record has the content type \<^verbatim>\<open>DOCUMENTARY\<close> and is
  in no partition of the result, which has no partition for that type.
\<close>

theorem other_content_type_in_no_partition:
  "typeKey (exampleVideos ! 2) = Some ''DOCUMENTARY''
   \<and> getLatestVideosByType exampleHost exampleVideos 8
       = Inr [(''MOVIE'', [exampleVideos ! 1, exampleVideos ! 0]), (''TV-SERIES'', [])]"
  by code_simp

section \<open>Sitemap chunks\<close>

lemma sitemap_paths:
  "searchFirst sitemapNumberAt ''/sitemap-1.xml'' = Some ''1''"
  "searchFirst sitemapNumberAt ''/sitemap-2.xml'' = Some ''2''"
  "searchFirst sitemapNumberAt ''/sitemap-3.xml'' = Some ''3''"
  "parseIntDigits ''1'' = 1" "parseIntDigits ''2'' = 2" "parseIntDigits ''3'' = 3"
  by code_simp+

lemma jsSlice_within:
  "0 \<le> a \<Longrightarrow> a \<le> b \<Longrightarrow> jsSlice a b xs = take (nat b - nat a) (drop (nat a) xs)"
  by (auto simp: jsSlice_def Let_def min_def nat_diff_distrib)

text \<open>
  C7. With 2500 video entries and the cap of 1000 URLs, the sitemap index lists, after the
  static and the categories sitemap, exactly the numbered sitemaps 1, 2 and 3; the numbered
  sitemap 1 holds the URLs of the entries 0 to 999, sitemap 2 those of the entries 1000 to
  1999 and sitemap 3 those of the entries 2000 to 2499, each in order.
\<close>

theorem sitemap_chunks:
  assumes len: "length allVideoSlugs = 2500"
  shows "generateMainSitemap allVideoSlugs baseUrl =
           Some (SitemapIndex
             [baseUrl @ ''/sitemap-static.xml'', baseUrl @ ''/sitemap-categories.xml'',
              baseUrl @ ''/sitemap-1.xml'', baseUrl @ ''/sitemap-2.xml'',
              baseUrl @ ''/sitemap-3.xml''])
       \<and> generateSitemapIndex allVideoSlugs baseUrl MAX_URLS_PER_SITEMAP =
           generateMainSitemap allVideoSlugs baseUrl
       \<and> generateIndividualSitemap allVideoSlugs baseUrl ''/sitemap-1.xml'' =
           UrlSet (map (videoUrl baseUrl) (take 1000 allVideoSlugs))
       \<and> generateIndividualSitemap allVideoSlugs baseUrl ''/sitemap-2.xml'' =
           UrlSet (map (videoUrl baseUrl) (take 1000 (drop 1000 allVideoSlugs)))
       \<and> generateIndividualSitemap allVideoSlugs baseUrl ''/sitemap-3.xml'' =
           UrlSet (map (videoUrl baseUrl) (drop 2000 allVideoSlugs))
       \<and> length (take 1000 allVideoSlugs) = 1000
       \<and> length (take 1000 (drop 1000 allVideoSlugs)) = 1000
       \<and> length (drop 2000 allVideoSlugs) = 500"
proof -
  have up: "[Suc 0..<3] = [Suc 0, 2]" by (simp add: upt_rec)
  have idx: "generateSitemapIndex allVideoSlugs baseUrl 1000 =
           Some (SitemapIndex
             [baseUrl @ ''/sitemap-static.xml'', baseUrl @ ''/sitemap-categories.xml'',
              baseUrl @ ''/sitemap-1.xml'', baseUrl @ ''/sitemap-2.xml'',
              baseUrl @ ''/sitemap-3.xml''])"
    by (simp add: generateSitemapIndex_def len up string_of_nat_examples string_of_nat_Suc_0)
  have main: "generateMainSitemap allVideoSlugs baseUrl
                = generateSitemapIndex allVideoSlugs baseUrl 1000"
    by (simp add: generateMainSitemap_def MAX_URLS_PER_SITEMAP_def len)
  have s1: "jsSlice 0 1000 allVideoSlugs = take 1000 allVideoSlugs"
    by (simp add: jsSlice_within)
  have s2: "jsSlice 1000 2000 allVideoSlugs = take 1000 (drop 1000 allVideoSlugs)"
    by (simp add: jsSlice_within)
  have s3: "jsSlice 2000 3000 allVideoSlugs = drop 2000 allVideoSlugs"
    by (simp add: jsSlice_within len)
  have n1: "take 1000 allVideoSlugs \<noteq> []" using len by auto
  have n2: "take 1000 (drop 1000 allVideoSlugs) \<noteq> []" using len by auto
  have n3: "drop 2000 allVideoSlugs \<noteq> []" using len by auto
  have c1: "generateIndividualSitemap allVideoSlugs baseUrl ''/sitemap-1.xml'' =
           UrlSet (map (videoUrl baseUrl) (take 1000 allVideoSlugs))"
    unfolding generateIndividualSitemap_def sitemap_paths
    using n1 by (simp add: MAX_URLS_PER_SITEMAP_def s1 sitemap_paths(4-6) Let_def)
  have c2: "generateIndividualSitemap allVideoSlugs baseUrl ''/sitemap-2.xml'' =
           UrlSet (map (videoUrl baseUrl) (take 1000 (drop 1000 allVideoSlugs)))"
    unfolding generateIndividualSitemap_def sitemap_paths
    using n2 by (simp add: MAX_URLS_PER_SITEMAP_def s2 sitemap_paths(4-6) Let_def)
  have c3: "generateIndividualSitemap allVideoSlugs baseUrl ''/sitemap-3.xml'' =
           UrlSet (map (videoUrl baseUrl) (drop 2000 allVideoSlugs))"
    unfolding generateIndividualSitemap_def sitemap_paths
    using n3 by (simp add: MAX_URLS_PER_SITEMAP_def s3 sitemap_paths(4-6) Let_def)
  show ?thesis using idx main c1 c2 c3 len by (simp add: MAX_URLS_PER_SITEMAP_def)
qed

theorem sitemap_chunks_witness:
  "length (replicate 2500 \<lparr>category = ''drama'', slug = ''umuti''\<rparr>) = 2500
   \<and> generateMainSitemap (replicate 2500 \<lparr>category = ''drama'', slug = ''umuti''\<rparr>)
        ''https://x.rw'' =
       Some (SitemapIndex
         [''https://x.rw/sitemap-static.xml'', ''https://x.rw/sitemap-categories.xml'',
          ''https://x.rw/sitemap-1.xml'', ''https://x.rw/sitemap-2.xml'',
          ''https://x.rw/sitemap-3.xml''])
   \<and> generateIndividualSitemap (replicate 2500 \<lparr>category = ''drama'', slug = ''umuti''\<rparr>)
        ''https://x.rw'' ''/sitemap-1.xml'' =
       UrlSet (replicate 1000 ''https://x.rw/drama/umuti'')
   \<and> generateIndividualSitemap (replicate 2500 \<lparr>category = ''drama'', slug = ''umuti''\<rparr>)
        ''https://x.rw'' ''/sitemap-3.xml'' =
       UrlSet (replicate 500 ''https://x.rw/drama/umuti'')"
proof -
  have l: "length (replicate 2500 \<lparr>category = ''drama'', slug = ''umuti''\<rparr>) = 2500"
    by simp
  from sitemap_chunks [OF l, of "''https://x.rw''"] l show ?thesis
    by (simp add: videoUrl_def)
qed

end
